theory Spec2Isabelle
  imports Main
begin

section \<open>Values and errors\<close>

text \<open>
  The configuration of \<^verbatim>\<open>src/lib/config.js\<close> is a tree of JavaScript values read
  from a YAML file. Fields whose JavaScript type the code inspects (truthiness,
  \<^verbatim>\<open>Array.isArray\<close>) are kept as values of \<open>jsval\<close>; a field that may be missing
  from its object is an \<open>option\<close>, \<open>None\<close> being the missing key.
\<close>

datatype jsval =
    JUndefined
  | JNull
  | JBool bool
  | JNum int
  | JStr string
  | JArr "jsval list"
  | JObj "(string \<times> jsval) list"

text \<open>
  JavaScript truthiness (\<^verbatim>\<open>if (v)\<close>, \<^verbatim>\<open>v || d\<close>, \<^verbatim>\<open>!v\<close>): arrays and objects are
  always truthy, the empty array too.
\<close>

fun truthy :: "jsval \<Rightarrow> bool" where
  "truthy JUndefined = False"
| "truthy JNull = False"
| "truthy (JBool b) = b"
| "truthy (JNum n) = (n \<noteq> 0)"
| "truthy (JStr s) = (s \<noteq> [])"
| "truthy (JArr xs) = True"
| "truthy (JObj kvs) = True"

text \<open>Reading a property: a missing key reads as \<^verbatim>\<open>undefined\<close>.\<close>

definition js_get :: "jsval option \<Rightarrow> jsval" where
  "js_get f = (case f of None \<Rightarrow> JUndefined | Some v \<Rightarrow> v)"

text \<open>\<^verbatim>\<open>a || b\<close> on values.\<close>

definition js_or :: "jsval \<Rightarrow> jsval \<Rightarrow> jsval" where
  "js_or a b = (if truthy a then a else b)"

text \<open>
  The exceptions the modelled code can raise: a TypeError of the language, a
  \<^verbatim>\<open>ConfigError\<close> of \<^verbatim>\<open>check\<close> (its message and its \<^verbatim>\<open>errorKey\<close>), an error of
  the file system (its code) and a parse error of the YAML library.
\<close>

datatype error =
    TypeError
  | ConfigError string "string option"
  | FsError string
  | YAMLException

section \<open>Content keys: \<^verbatim>\<open>getDPackKey\<close> and \<^verbatim>\<open>isDWebUrl\<close>\<close>

text \<open>
  Both functions use the regular expression
  \<^verbatim>\<open>/^(dweb:\/\/)?([0-9a-f]{64})\/?$/i\<close>. The flag \<^verbatim>\<open>i\<close> makes the scheme and the
  hexadecimal digits match in either case; \<^verbatim>\<open>$\<close> (no flag \<^verbatim>\<open>m\<close>) is the end of the
  input.
\<close>

definition is_hex :: "char \<Rightarrow> bool" where
  "is_hex c = (c \<in> set ''0123456789abcdefABCDEF'')"

text \<open>\<^verbatim>\<open>dweb:\/\/\<close> under the flag \<^verbatim>\<open>i\<close>.\<close>

definition scheme_match :: "string \<Rightarrow> bool" where
  "scheme_match p =
     (case p of
        [d, w, e, b, c, s1, s2] \<Rightarrow>
          (d = CHR ''d'' \<or> d = CHR ''D'') \<and> (w = CHR ''w'' \<or> w = CHR ''W'') \<and>
          (e = CHR ''e'' \<or> e = CHR ''E'') \<and> (b = CHR ''b'' \<or> b = CHR ''B'') \<and>
          c = CHR '':'' \<and> s1 = CHR ''/'' \<and> s2 = CHR ''/''
      | _ \<Rightarrow> False)"

text \<open>\<^verbatim>\<open>([0-9a-f]{64})\/?$\<close> matched against the whole of \<open>r\<close>; the result is group 2.\<close>

definition key_body :: "string \<Rightarrow> string option" where
  "key_body r =
     (if 64 \<le> length r \<and> list_all is_hex (take 64 r) \<and>
         (drop 64 r = [] \<or> drop 64 r = ''/'')
      then Some (take 64 r) else None)"

text \<open>
  The whole expression: the optional group is tried first and, when the rest does not
  match after it, the match is tried again without it.
\<close>

definition dweb_regex_exec :: "string \<Rightarrow> string option" where
  "dweb_regex_exec s =
     (if scheme_match (take 7 s)
      then (case key_body (drop 7 s) of Some k \<Rightarrow> Some k | None \<Rightarrow> key_body s)
      else key_body s)"

text \<open>
  \<^verbatim>\<open>getDPackKey(url)\<close> indexes the result of \<^verbatim>\<open>exec\<close> with \<^verbatim>\<open>[2]\<close>: when the
  expression does not match, \<^verbatim>\<open>exec\<close> returns \<^verbatim>\<open>null\<close> and the index raises a
  TypeError.
\<close>

definition getDPackKey :: "string \<Rightarrow> error + string" where
  "getDPackKey u = (case dweb_regex_exec u of None \<Rightarrow> Inl TypeError | Some k \<Rightarrow> Inr k)"

definition isDWebUrl :: "string \<Rightarrow> bool" where
  "isDWebUrl u = (dweb_regex_exec u \<noteq> None)"

text \<open>
  The three shapes the specification lists, written after its words: the scheme
  \<^verbatim>\<open>dweb://\<close> followed by 64 hexadecimal digits and a slash, the same without the
  slash, and the 64 digits alone.
\<close>

definition hex64 :: "string \<Rightarrow> bool" where
  "hex64 k = (length k = 64 \<and> list_all is_hex k)"

definition spec_key_shapes :: "string \<Rightarrow> string option" where
  "spec_key_shapes s =
     (if hex64 s then Some s
      else if take 7 s = ''dweb://'' \<and> hex64 (drop 7 s) then Some (drop 7 s)
      else if take 7 s = ''dweb://'' \<and> hex64 (take 64 (drop 7 s)) \<and> drop 71 s = ''/''
      then Some (take 64 (drop 7 s))
      else None)"

section \<open>Site entries and derived vhosts\<close>

text \<open>
  A mirror entry of \<^verbatim>\<open>canonical.dpacks\<close> has the keys \<^verbatim>\<open>url\<close>, \<^verbatim>\<open>name\<close> and
  \<^verbatim>\<open>otherDomains\<close>; proxies and redirects have \<^verbatim>\<open>from\<close> and \<^verbatim>\<open>to\<close>.
\<close>

record dpack_cfg =
  url :: string
  name :: "string option"
  otherDomains :: "jsval option"

record proxy_cfg =
  pfrom :: string
  pto :: string

record redirect_cfg =
  rfrom :: string
  rto :: string

text \<open>\<^verbatim>\<open>ForeverDPackConfig.dPackKey\<close> and \<^verbatim>\<open>.id\<close>: \<^verbatim>\<open>'dpack-' + this.dPackKey\<close>.\<close>

definition dpack_dPackKey :: "dpack_cfg \<Rightarrow> error + string" where
  "dpack_dPackKey d = getDPackKey (url d)"

definition dpack_id :: "dpack_cfg \<Rightarrow> error + string" where
  "dpack_id d = (case dpack_dPackKey d of Inl e \<Rightarrow> Inl e | Inr k \<Rightarrow> Inr (''dpack-'' @ k))"

definition dpack_vhostType :: "dpack_cfg \<Rightarrow> string" where
  "dpack_vhostType d = ''dweb''"

definition proxy_id :: "proxy_cfg \<Rightarrow> string" where
  "proxy_id p = ''proxy-'' @ pfrom p"

definition proxy_vhostType :: "proxy_cfg \<Rightarrow> string" where
  "proxy_vhostType p = ''proxy''"

definition proxy_hostnames :: "proxy_cfg \<Rightarrow> jsval list" where
  "proxy_hostnames p = [JStr (pfrom p)]"

definition redirect_id :: "redirect_cfg \<Rightarrow> string" where
  "redirect_id r = ''redirect-'' @ rfrom r"

definition redirect_vhostType :: "redirect_cfg \<Rightarrow> string" where
  "redirect_vhostType r = ''redirect''"

definition redirect_hostnames :: "redirect_cfg \<Rightarrow> jsval list" where
  "redirect_hostnames r = [JStr (rfrom r)]"

section \<open>Strings of values\<close>

text \<open>Decimal digits of a number, as \<^verbatim>\<open>String(n)\<close> prints an integer.\<close>

definition digit_char :: "nat \<Rightarrow> char" where
  "digit_char d = ''0123456789'' ! d"

fun show_nat :: "nat \<Rightarrow> string" where
  "show_nat n =
     (if n < 10 then [digit_char n]
      else show_nat (n div 10) @ [digit_char (n mod 10)])"

declare show_nat.simps [simp del]

definition show_int :: "int \<Rightarrow> string" where
  "show_int i = (if i < 0 then CHR ''-'' # show_nat (nat (- i)) else show_nat (nat i))"

text \<open>
  The string a value takes in a template literal or under \<^verbatim>\<open>+\<close> with a string.
  An array joins its elements with commas, \<^verbatim>\<open>null\<close> and \<^verbatim>\<open>undefined\<close> elements
  being empty.
\<close>

fun join_comma :: "string list \<Rightarrow> string" where
  "join_comma [] = []"
| "join_comma [x] = x"
| "join_comma (x # y # ys) = x @ '','' @ join_comma (y # ys)"

fun js_to_string :: "jsval \<Rightarrow> string" where
  "js_to_string JUndefined = ''undefined''"
| "js_to_string JNull = ''null''"
| "js_to_string (JBool b) = (if b then ''true'' else ''false'')"
| "js_to_string (JNum n) = show_int n"
| "js_to_string (JStr s) = s"
| "js_to_string (JArr xs) =
     join_comma (map (\<lambda>v. if v = JUndefined \<or> v = JNull then [] else js_to_string v) xs)"
| "js_to_string (JObj kvs) = ''[object Object]''"

section \<open>The canonical document and the configuration object\<close>

text \<open>
  A collection of sites is an array after validation; the YAML file may also give a
  single object, which \<^verbatim>\<open>validate\<close> wraps into an array.
\<close>

datatype 'a sites = One 'a | Many "'a list"

text \<open>
  \<^verbatim>\<open>ForeverConfig.canonical\<close>: the recognised top-level keys. A settings key is
  \<open>None\<close> when the document does not have it. For a collection, \<open>None\<close> stands for a
  missing or \<^verbatim>\<open>null\<close> key (both are falsy and have no methods).
\<close>

record canonical_doc =
  directory :: "jsval option"
  domain :: "jsval option"
  httpMirror :: "jsval option"
  ports :: "jsval option"
  letsencrypt :: "jsval option"
  dashboard :: "jsval option"
  webapi :: "jsval option"
  dpacks :: "dpack_cfg sites option"
  proxies :: "proxy_cfg sites option"
  redirects :: "redirect_cfg sites option"

text \<open>\<^verbatim>\<open>this.canonical = {}\<close> of the constructor, and of an empty file.\<close>

definition empty_doc :: canonical_doc where
  "empty_doc =
     \<lparr>directory = None, domain = None, httpMirror = None, ports = None,
      letsencrypt = None, dashboard = None, webapi = None,
      dpacks = None, proxies = None, redirects = None\<rparr>"

text \<open>
  What the module reads from its platform: \<^verbatim>\<open>os.homedir()\<close>, \<^verbatim>\<open>os.hostname()\<close>,
  \<^verbatim>\<open>process.env.NODE_ENV\<close>, and the library functions \<^verbatim>\<open>path.join\<close> and
  \<^verbatim>\<open>untildify\<close>, which are not part of the repository.
\<close>

record platform =
  os_homedir :: string
  os_hostname :: string
  node_env :: "string option"
  path_join :: "string \<Rightarrow> string \<Rightarrow> string"
  untildify :: "string \<Rightarrow> string"

definition DEFAULT_CONFIG_DIRECTORY :: "platform \<Rightarrow> string" where
  "DEFAULT_CONFIG_DIRECTORY P = path_join P (os_homedir P) ''.forever''"

definition IS_DEBUG :: "platform \<Rightarrow> bool" where
  "IS_DEBUG P =
     (case node_env P of None \<Rightarrow> False
      | Some e \<Rightarrow> e \<in> set [''debug'', ''staging'', ''test''])"

text \<open>
  The configuration object: where it was loaded from, the canonical document, and, for
  the effects of \<^verbatim>\<open>writeToFile\<close>, the files written and the events emitted.
\<close>

record forever_config =
  configPath :: "string option"
  canonical :: canonical_doc
  files :: "string \<Rightarrow> string option"
  emitted :: "string list"

text \<open>
  \<^verbatim>\<open>writeToFile(configPath = false)\<close>: \<^verbatim>\<open>configPath || this.configPath\<close>, then
  \<^verbatim>\<open>fs.writeFileSync\<close> of the dumped document and the event. \<open>safeDump\<close> is
  \<^verbatim>\<open>yaml.safeDump(_, {skipInvalid: true})\<close>. Writing to \<^verbatim>\<open>null\<close> raises a TypeError,
  writing to the empty path fails in the file system.
\<close>

definition or_path :: "string option \<Rightarrow> string option \<Rightarrow> string option" where
  "or_path a b = (case a of None \<Rightarrow> b | Some p \<Rightarrow> if p \<noteq> [] then Some p else b)"

definition writeToFile ::
  "(canonical_doc \<Rightarrow> string) \<Rightarrow> string option \<Rightarrow> forever_config \<Rightarrow> error + forever_config" where
  "writeToFile safeDump arg c =
     (case or_path arg (configPath c) of
        None \<Rightarrow> Inl TypeError
      | Some p \<Rightarrow>
          if p = [] then Inl (FsError ''ENOENT'')
          else Inr (c\<lparr>files := (files c)(p \<mapsto> safeDump (canonical c)),
                      emitted := emitted c @ [''wrote-config'']\<rparr>))"

subsection \<open>Adding, updating and removing mirror entries\<close>

text \<open>
  \<^verbatim>\<open>this.canonical.dpacks.find(d => getDPackKey(d.url) === dPackKey)\<close>: the index of
  the first entry with the key. The callback raises on an entry whose \<^verbatim>\<open>url\<close> is not
  a key, unless a match was found before it.
\<close>

fun find_dpack :: "string \<Rightarrow> dpack_cfg list \<Rightarrow> error + nat option" where
  "find_dpack k [] = Inr None"
| "find_dpack k (d # ds) =
     (case getDPackKey (url d) of
        Inl e \<Rightarrow> Inl e
      | Inr k' \<Rightarrow>
          if k' = k then Inr (Some 0)
          else (case find_dpack k ds of
                  Inl e \<Rightarrow> Inl e
                | Inr None \<Rightarrow> Inr None
                | Inr (Some i) \<Rightarrow> Inr (Some (Suc i))))"

text \<open>\<^verbatim>\<open>this.canonical.dpacks.filter(d => getDPackKey(d.url) !== dPackKey)\<close>.\<close>

fun filter_dpacks :: "string \<Rightarrow> dpack_cfg list \<Rightarrow> error + dpack_cfg list" where
  "filter_dpacks k [] = Inr []"
| "filter_dpacks k (d # ds) =
     (case getDPackKey (url d) of
        Inl e \<Rightarrow> Inl e
      | Inr k' \<Rightarrow>
          (case filter_dpacks k ds of
             Inl e \<Rightarrow> Inl e
           | Inr ds' \<Rightarrow> Inr (if k' \<noteq> k then d # ds' else ds')))"

text \<open>
  The methods \<^verbatim>\<open>find\<close>, \<^verbatim>\<open>filter\<close> and \<^verbatim>\<open>push\<close> exist on an array only: on a
  missing collection, and on a single object, the call raises a TypeError.
\<close>

definition dpacks_array :: "canonical_doc \<Rightarrow> error + dpack_cfg list" where
  "dpacks_array c = (case dpacks c of Some (Many ds) \<Rightarrow> Inr ds | _ \<Rightarrow> Inl TypeError)"

definition addDPack ::
  "(canonical_doc \<Rightarrow> string) \<Rightarrow> forever_config \<Rightarrow> dpack_cfg \<Rightarrow> error + forever_config" where
  "addDPack safeDump c dpackCfg =
     (case getDPackKey (url dpackCfg) of
        Inl e \<Rightarrow> Inl e
      | Inr k \<Rightarrow>
          (case dpacks_array (canonical c) of
             Inl e \<Rightarrow> Inl e
           | Inr ds \<Rightarrow>
               (case find_dpack k ds of
                  Inl e \<Rightarrow> Inl e
                | Inr (Some i) \<Rightarrow> Inr c
                | Inr None \<Rightarrow>
                    writeToFile safeDump None
                      (c\<lparr>canonical := (canonical c)\<lparr>dpacks := Some (Many (ds @ [dpackCfg]))\<rparr>\<rparr>))))"

text \<open>
  The update of the entry found: \<^verbatim>\<open>oldDPackCfg.url = dpackCfg.url\<close>, and
  \<^verbatim>\<open>otherDomains\<close> taken from the payload when it is truthy there, deleted otherwise.
\<close>

definition update_entry :: "dpack_cfg \<Rightarrow> dpack_cfg \<Rightarrow> dpack_cfg" where
  "update_entry oldDPackCfg dpackCfg =
     (if truthy (js_get (otherDomains dpackCfg))
      then oldDPackCfg\<lparr>url := url dpackCfg, otherDomains := Some (js_get (otherDomains dpackCfg))\<rparr>
      else oldDPackCfg\<lparr>url := url dpackCfg, otherDomains := None\<rparr>)"

definition updateDPack ::
  "(canonical_doc \<Rightarrow> string) \<Rightarrow> forever_config \<Rightarrow> string \<Rightarrow> dpack_cfg \<Rightarrow> error + forever_config" where
  "updateDPack safeDump c dPackKey dpackCfg =
     (case dpacks_array (canonical c) of
        Inl e \<Rightarrow> Inl e
      | Inr ds \<Rightarrow>
          (case find_dpack dPackKey ds of
             Inl e \<Rightarrow> Inl e
           | Inr None \<Rightarrow> Inr c
           | Inr (Some i) \<Rightarrow>
               writeToFile safeDump None
                 (c\<lparr>canonical := (canonical c)
                      \<lparr>dpacks := Some (Many (ds[i := update_entry (ds ! i) dpackCfg]))\<rparr>\<rparr>)))"

definition removeDPack ::
  "(canonical_doc \<Rightarrow> string) \<Rightarrow> forever_config \<Rightarrow> string \<Rightarrow> error + forever_config" where
  "removeDPack safeDump c dPackKey =
     (case dpacks_array (canonical c) of
        Inl e \<Rightarrow> Inl e
      | Inr ds \<Rightarrow>
          (case filter_dpacks dPackKey ds of
             Inl e \<Rightarrow> Inl e
           | Inr ds' \<Rightarrow>
               writeToFile safeDump None
                 (c\<lparr>canonical := (canonical c)\<lparr>dpacks := Some (Many ds')\<rparr>\<rparr>)))"

subsection \<open>The getters of \<^verbatim>\<open>ForeverConfig\<close>\<close>

text \<open>Objects as lists of keys and values, in the order the keys were set.\<close>

definition obj_get :: "(string \<times> jsval) list \<Rightarrow> string \<Rightarrow> jsval" where
  "obj_get kvs k = (case map_of kvs k of None \<Rightarrow> JUndefined | Some v \<Rightarrow> v)"

fun obj_set :: "string \<Rightarrow> jsval \<Rightarrow> (string \<times> jsval) list \<Rightarrow> (string \<times> jsval) list" where
  "obj_set k v [] = [(k, v)]"
| "obj_set k v ((k', v') # kvs) = (if k' = k then (k, v) # kvs else (k', v') # obj_set k v kvs)"

text \<open>
  \<^verbatim>\<open>get directory\<close>: \<^verbatim>\<open>untildify(this.canonical.directory || DEFAULT_CONFIG_DIRECTORY)\<close>;
  \<^verbatim>\<open>untildify\<close> accepts strings only.
\<close>

definition directory_get :: "platform \<Rightarrow> canonical_doc \<Rightarrow> error + string" where
  "directory_get P c =
     (case js_or (js_get (directory c)) (JStr (DEFAULT_CONFIG_DIRECTORY P)) of
        JStr s \<Rightarrow> Inr (untildify P s)
      | _ \<Rightarrow> Inl TypeError)"

text \<open>
  \<^verbatim>\<open>get domain\<close>: the host's name when no domain is set, but only outside of the debug
  modes; the value of the document otherwise, \<^verbatim>\<open>undefined\<close> included.
\<close>

definition domain_get :: "platform \<Rightarrow> canonical_doc \<Rightarrow> jsval" where
  "domain_get P c =
     (if \<not> IS_DEBUG P \<and> \<not> truthy (js_get (domain c)) then JStr (os_hostname P)
      else js_get (domain c))"

definition httpMirror_get :: "canonical_doc \<Rightarrow> jsval" where
  "httpMirror_get c = js_or (js_get (httpMirror c)) (JBool False)"

text \<open>
  \<^verbatim>\<open>get ports\<close>: \<^verbatim>\<open>this.canonical.ports || {}\<close> with \<^verbatim>\<open>http\<close> and \<^verbatim>\<open>https\<close>
  defaulted to 80 and 443 by assignment. When the document has a \<^verbatim>\<open>ports\<close> object the
  assignment is made on that object, so the getter returns the document as well. The
  class body is strict code: the assignment on a truthy primitive raises a TypeError.
  An array in the place of the object would take the two as named properties; the model
  shows it as the object of the two.
\<close>

definition default_ports :: "(string \<times> jsval) list \<Rightarrow> (string \<times> jsval) list" where
  "default_ports kvs =
     (let kvs1 = obj_set ''http'' (js_or (obj_get kvs ''http'') (JNum 80)) kvs
      in obj_set ''https'' (js_or (obj_get kvs1 ''https'') (JNum 443)) kvs1)"

definition ports_get :: "canonical_doc \<Rightarrow> error + jsval \<times> canonical_doc" where
  "ports_get c =
     (case js_get (ports c) of
        JObj kvs \<Rightarrow> Inr (JObj (default_ports kvs), c\<lparr>ports := Some (JObj (default_ports kvs))\<rparr>)
      | JArr xs \<Rightarrow> Inr (JObj (default_ports []), c)
      | v \<Rightarrow> if truthy v then Inl TypeError else Inr (JObj (default_ports []), c))"

text \<open>
  \<^verbatim>\<open>get dpacks\<close>, \<^verbatim>\<open>get proxies\<close>, \<^verbatim>\<open>get redirects\<close>: the entries wrapped into
  their classes, \<^verbatim>\<open>[]\<close> for a falsy collection; \<^verbatim>\<open>map\<close> exists on arrays only.
\<close>

definition sites_get :: "'a sites option \<Rightarrow> error + 'a list" where
  "sites_get x = (case x of None \<Rightarrow> Inr [] | Some (Many xs) \<Rightarrow> Inr xs | Some (One y) \<Rightarrow> Inl TypeError)"

datatype vhost = DPackVhost dpack_cfg | ProxyVhost proxy_cfg | RedirectVhost redirect_cfg

definition allVhosts :: "canonical_doc \<Rightarrow> error + vhost list" where
  "allVhosts c =
     (case sites_get (dpacks c) of
        Inl e \<Rightarrow> Inl e
      | Inr ds \<Rightarrow>
          (case sites_get (proxies c) of
             Inl e \<Rightarrow> Inl e
           | Inr ps \<Rightarrow>
               (case sites_get (redirects c) of
                  Inl e \<Rightarrow> Inl e
                | Inr rs \<Rightarrow>
                    Inr (map DPackVhost ds @ map ProxyVhost ps @ map RedirectVhost rs))))"

text \<open>\<^verbatim>\<open>${this.name}\<close> of a name that may be missing.\<close>

definition name_string :: "string option \<Rightarrow> string" where
  "name_string n = (case n of None \<Rightarrow> ''undefined'' | Some s \<Rightarrow> s)"

text \<open>
  \<^verbatim>\<open>ForeverDPackConfig.hostnames\<close>:
  \<^verbatim>\<open>[`${this.name}.${this.config.domain}`].concat(this.otherDomains || [])\<close>.
  \<^verbatim>\<open>concat\<close> spreads an array and appends any other value.
\<close>

definition concat_arg :: "jsval \<Rightarrow> jsval list" where
  "concat_arg v = (case v of JArr xs \<Rightarrow> xs | _ \<Rightarrow> [v])"

definition dpack_hostnames :: "platform \<Rightarrow> canonical_doc \<Rightarrow> dpack_cfg \<Rightarrow> jsval list" where
  "dpack_hostnames P c d =
     JStr (name_string (name d) @ ''.'' @ js_to_string (domain_get P c))
       # concat_arg (js_or (js_get (otherDomains d)) (JArr []))"

definition vhost_id :: "vhost \<Rightarrow> error + string" where
  "vhost_id v =
     (case v of DPackVhost d \<Rightarrow> dpack_id d
      | ProxyVhost p \<Rightarrow> Inr (proxy_id p)
      | RedirectVhost r \<Rightarrow> Inr (redirect_id r))"

definition vhost_vhostType :: "vhost \<Rightarrow> string" where
  "vhost_vhostType v =
     (case v of DPackVhost d \<Rightarrow> dpack_vhostType d
      | ProxyVhost p \<Rightarrow> proxy_vhostType p
      | RedirectVhost r \<Rightarrow> redirect_vhostType r)"

definition vhost_hostnames :: "platform \<Rightarrow> canonical_doc \<Rightarrow> vhost \<Rightarrow> jsval list" where
  "vhost_hostnames P c v =
     (case v of DPackVhost d \<Rightarrow> dpack_hostnames P c d
      | ProxyVhost p \<Rightarrow> proxy_hostnames p
      | RedirectVhost r \<Rightarrow> redirect_hostnames r)"

text \<open>
  \<^verbatim>\<open>get hostnames\<close>:
  \<^verbatim>\<open>[this.domain].concat(_flatten(this.allVhosts.map(vhostCfg => vhostCfg.hostnames)))\<close>.
\<close>

definition hostnames_get :: "platform \<Rightarrow> canonical_doc \<Rightarrow> error + jsval list" where
  "hostnames_get P c =
     (case allVhosts c of
        Inl e \<Rightarrow> Inl e
      | Inr vs \<Rightarrow> Inr (domain_get P c # concat (map (vhost_hostnames P c) vs)))"

text \<open>
  The derived view of one vhost that the round trip compares: its id, its type, its
  hostnames and, for a mirror, its content key.
\<close>

record derived_vhost =
  dv_id :: "error + string"
  dv_vhostType :: string
  dv_hostnames :: "jsval list"
  dv_dPackKey :: "(error + string) option"

definition derive_vhost :: "platform \<Rightarrow> canonical_doc \<Rightarrow> vhost \<Rightarrow> derived_vhost" where
  "derive_vhost P c v =
     \<lparr>dv_id = vhost_id v, dv_vhostType = vhost_vhostType v,
      dv_hostnames = vhost_hostnames P c v,
      dv_dPackKey = (case v of DPackVhost d \<Rightarrow> Some (dpack_dPackKey d) | _ \<Rightarrow> None)\<rparr>"

definition derive :: "platform \<Rightarrow> canonical_doc \<Rightarrow> error + derived_vhost list" where
  "derive P c = (case allVhosts c of Inl e \<Rightarrow> Inl e | Inr vs \<Rightarrow> Inr (map (derive_vhost P c) vs))"

section \<open>Validation, reading and the round trip through the file\<close>

text \<open>\<^verbatim>\<open>typeof v\<close>, \<^verbatim>\<open>k in v\<close> and \<^verbatim>\<open>v.k\<close> for a value \<open>v\<close> that is not a primitive.\<close>

fun typeof :: "jsval \<Rightarrow> string" where
  "typeof JUndefined = ''undefined''"
| "typeof JNull = ''object''"
| "typeof (JBool b) = ''boolean''"
| "typeof (JNum n) = ''number''"
| "typeof (JStr s) = ''string''"
| "typeof (JArr xs) = ''object''"
| "typeof (JObj kvs) = ''object''"

definition has_key :: "string \<Rightarrow> jsval \<Rightarrow> bool" where
  "has_key k v = (case v of JObj kvs \<Rightarrow> k \<in> set (map fst kvs) | _ \<Rightarrow> False)"

definition get_prop :: "jsval \<Rightarrow> string \<Rightarrow> jsval" where
  "get_prop v k = (case v of JObj kvs \<Rightarrow> obj_get kvs k | _ \<Rightarrow> JUndefined)"

text \<open>
  \<^verbatim>\<open>check(assertion, error, value, errorKey)\<close> raises a \<^verbatim>\<open>ConfigError\<close> with the
  message, marked with the error key when there is one (the offending value, which the
  error carries too, is left out). The checks of a function run in order and the first
  that fails ends it.
\<close>

definition check :: "bool \<Rightarrow> string \<Rightarrow> string option \<Rightarrow> error + unit" where
  "check assertion msg errorKey = (if assertion then Inr () else Inl (ConfigError msg errorKey))"

definition guarded :: "bool \<Rightarrow> error + unit \<Rightarrow> error + unit" where
  "guarded g c = (if g then c else Inr ())"

fun run_checks :: "(error + unit) list \<Rightarrow> error + unit" where
  "run_checks [] = Inr ()"
| "run_checks (c # cs) = (case c of Inl e \<Rightarrow> Inl e | Inr u \<Rightarrow> run_checks cs)"

text \<open>The checks of \<^verbatim>\<open>validate\<close> on the settings, lines 292 to 305.\<close>

definition object_or_false :: "jsval \<Rightarrow> bool" where
  "object_or_false v = (typeof v = ''object'' \<or> v = JBool False)"

definition check_settings :: "canonical_doc \<Rightarrow> error + unit" where
  "check_settings c = run_checks
     [guarded (directory c \<noteq> None)
        (check (typeof (js_get (directory c)) = ''string'')
           ''directory must be a string, see https://docs.dpack.io/forever#directory'' None),
      guarded (domain c \<noteq> None)
        (check (typeof (js_get (domain c)) = ''string'')
           ''domain must be a string, see https://docs.dpack.io/forever#domain'' None),
      guarded (httpMirror c \<noteq> None)
        (check (typeof (js_get (httpMirror c)) = ''boolean'')
           ''httpMirror must be true or false, see https://docs.dpack.io/forever#httpmirror'' None),
      guarded (ports c \<noteq> None)
        (check (truthy (js_get (ports c)) \<and> typeof (js_get (ports c)) = ''object'')
           ''ports must be an object containing .http and/or .https, see https://docs.dpack.io/forever#ports''
           None),
      guarded (ports c \<noteq> None \<and> has_key ''http'' (js_get (ports c)))
        (check (typeof (get_prop (js_get (ports c)) ''http'') = ''number'')
           ''ports.http must be a number, see https://docs.dpack.io/forever#portshttp'' None),
      guarded (ports c \<noteq> None \<and> has_key ''https'' (js_get (ports c)))
        (check (typeof (get_prop (js_get (ports c)) ''https'') = ''number'')
           ''ports.https must be a number, see https://docs.dpack.io/forever#portshttp'' None),
      guarded (letsencrypt c \<noteq> None)
        (check (object_or_false (js_get (letsencrypt c)))
           ''letsencrypt must be an object or false, see https://docs.dpack.io/forever#letsencrypt'' None),
      guarded (truthy (js_get (letsencrypt c)))
        (check (typeof (get_prop (js_get (letsencrypt c)) ''email'') = ''string'')
           ''letsencrypt.email must be specified, see https://docs.dpack.io/forever#letsencryptemail''
           None),
      guarded (truthy (js_get (letsencrypt c)))
        (check (get_prop (js_get (letsencrypt c)) ''agreeTos'' = JBool True)
           (''letsencrypt.agreeTos must be true (you must agree to the Lets Encrypt terms of service) ''
              @ ''see https://docs.dpack.io/forever#letsencryptagreetos'') None),
      guarded (dashboard c \<noteq> None)
        (check (object_or_false (js_get (dashboard c)))
           ''dashboard must be an object or false, see https://docs.dpack.io/forever#dashboard'' None),
      guarded (truthy (js_get (dashboard c)) \<and> has_key ''port'' (js_get (dashboard c)))
        (check (typeof (get_prop (js_get (dashboard c)) ''port'') = ''number'')
           ''dashboard.port must be a number, see https://docs.dpack.io/forever#dashboardport'' None),
      guarded (webapi c \<noteq> None)
        (check (object_or_false (js_get (webapi c)))
           ''webapi must be an object or false, see https://docs.dpack.io/forever#webapi'' None),
      guarded (truthy (js_get (webapi c)))
        (check (typeof (get_prop (js_get (webapi c)) ''username'') = ''string'')
           ''webapi.username must be specified, see https://docs.dpack.io/forever#webapiusername'' None),
      guarded (truthy (js_get (webapi c)))
        (check (typeof (get_prop (js_get (webapi c)) ''password'') = ''string'')
           ''webapi.password must be specified, see https://docs.dpack.io/forever#webapipassword'' None)]"

text \<open>
  \<^verbatim>\<open>forEach\<close> with a callback that validates, and may rewrite, each element; the
  first exception ends the loop.
\<close>

fun validate_each :: "('a \<Rightarrow> error + 'a) \<Rightarrow> 'a list \<Rightarrow> error + 'a list" where
  "validate_each f [] = Inr []"
| "validate_each f (x # xs) =
     (case f x of
        Inl e \<Rightarrow> Inl e
      | Inr y \<Rightarrow> (case validate_each f xs of Inl e \<Rightarrow> Inl e | Inr ys \<Rightarrow> Inr (y # ys)))"

text \<open>
  \<^verbatim>\<open>validateDPackCfg(dpack)\<close>. The first statement wraps a truthy \<^verbatim>\<open>otherDomains\<close> that
  is not an array into an array and, being an assignment, leaves the key set. The check
  that the entry is an object holds of every \<open>dpack_cfg\<close>. \<open>isDomain\<close> is the library
  \<^verbatim>\<open>is-domain-name\<close>.
\<close>

definition isArray :: "jsval \<Rightarrow> bool" where
  "isArray v = (case v of JArr xs \<Rightarrow> True | _ \<Rightarrow> False)"

definition validateDPackCfg :: "(jsval \<Rightarrow> bool) \<Rightarrow> dpack_cfg \<Rightarrow> error + dpack_cfg" where
  "validateDPackCfg isDomain dpack =
     (let od = js_get (otherDomains dpack);
          od' = (if \<not> truthy od \<or> isArray od then od else JArr [od])
      in case run_checks
           ([check (isDWebUrl (url dpack))
               ''dpacks.*.url must be a valid dpack url, see https://docs.dpack.io/forever#dpacksurl''
               (Some ''invalidUrl''),
             check (name dpack \<noteq> None)
               ''dpacks.*.name must be specified, see https://docs.dpack.io/forever#dpacksname''
               (Some ''invalidName'')]
            @ (if truthy od' then
                 map (\<lambda>domain. check (isDomain domain)
                        (''dpacks.*.otherDomains.* must be domain names, ''
                           @ ''see https://docs.dpack.io/forever#dpacksotherdomains'')
                        (Some ''invalidDomain''))
                   (concat_arg od')
               else []))
         of Inl e \<Rightarrow> Inl e
          | Inr u \<Rightarrow> Inr (dpack\<lparr>otherDomains := Some od'\<rparr>))"

text \<open>The callbacks for proxies and redirects; \<open>isOrigin\<close> is the library \<^verbatim>\<open>is-http-url\<close>.\<close>

definition validate_proxy ::
  "(jsval \<Rightarrow> bool) \<Rightarrow> (string \<Rightarrow> bool) \<Rightarrow> proxy_cfg \<Rightarrow> error + proxy_cfg" where
  "validate_proxy isDomain isOrigin proxy =
     (case run_checks
        [check (isDomain (JStr (pfrom proxy)))
           ''proxies.*.from must be a domain name, see https://docs.dpack.io/forever#proxiesfrom'' None,
         check (isOrigin (pto proxy))
           ''proxies.*.to must be a target origin, see https://docs.dpack.io/forever#proxiesto'' None]
      of Inl e \<Rightarrow> Inl e | Inr u \<Rightarrow> Inr proxy)"

text \<open>\<^verbatim>\<open>redirect.to.replace(/\/$/, '')\<close>: one slash at the end is removed.\<close>

definition strip_slash :: "string \<Rightarrow> string" where
  "strip_slash t = (if t \<noteq> [] \<and> last t = CHR ''/'' then butlast t else t)"

definition validate_redirect ::
  "(jsval \<Rightarrow> bool) \<Rightarrow> (string \<Rightarrow> bool) \<Rightarrow> redirect_cfg \<Rightarrow> error + redirect_cfg" where
  "validate_redirect isDomain isOrigin redirect =
     (case run_checks
        [check (isDomain (JStr (rfrom redirect)))
           ''redirects.*.from must be a domain name, see https://docs.dpack.io/forever#redirectsfrom''
           None,
         check (isOrigin (rto redirect))
           ''redirects.*.to must be a target origin, see https://docs.dpack.io/forever#redirectsto''
           None]
      of Inl e \<Rightarrow> Inl e | Inr u \<Rightarrow> Inr (redirect\<lparr>rto := strip_slash (rto redirect)\<rparr>))"

text \<open>
  A collection that is set is made an array (\<^verbatim>\<open>Array.isArray(x) ? x : [x]\<close>) and
  each element is validated.
\<close>

definition validate_sites :: "('a \<Rightarrow> error + 'a) \<Rightarrow> 'a sites option \<Rightarrow> error + 'a sites option" where
  "validate_sites f x =
     (case x of
        None \<Rightarrow> Inr None
      | Some y \<Rightarrow>
          (case validate_each f (case y of Many xs \<Rightarrow> xs | One z \<Rightarrow> [z]) of
             Inl e \<Rightarrow> Inl e
           | Inr ys \<Rightarrow> Inr (Some (Many ys))))"

text \<open>\<^verbatim>\<open>validate(config)\<close>: the document as the function leaves it, or its exception.\<close>

definition validate ::
  "(jsval \<Rightarrow> bool) \<Rightarrow> (string \<Rightarrow> bool) \<Rightarrow> canonical_doc \<Rightarrow> error + canonical_doc" where
  "validate isDomain isOrigin c =
     (case check_settings c of
        Inl e \<Rightarrow> Inl e
      | Inr u \<Rightarrow>
          (case validate_sites (validateDPackCfg isDomain) (dpacks c) of
             Inl e \<Rightarrow> Inl e
           | Inr ds \<Rightarrow>
               (case validate_sites (validate_proxy isDomain isOrigin) (proxies c) of
                  Inl e \<Rightarrow> Inl e
                | Inr ps \<Rightarrow>
                    (case validate_sites (validate_redirect isDomain isOrigin) (redirects c) of
                       Inl e \<Rightarrow> Inl e
                     | Inr rs \<Rightarrow> Inr (c\<lparr>dpacks := ds, proxies := ps, redirects := rs\<rparr>)))))"

text \<open>
  \<^verbatim>\<open>readFromFile(configPath = false)\<close>. A file that does not exist reads as the empty
  text; reading the path \<^verbatim>\<open>null\<close> raises a TypeError, which is thrown on. \<open>safeLoad\<close>
  is \<^verbatim>\<open>yaml.safeLoad\<close>: an exception, or the document, \<open>None\<close> when the text holds
  none (\<^verbatim>\<open>this.canonical || {}\<close>).
\<close>

definition readFromFile ::
  "(jsval \<Rightarrow> bool) \<Rightarrow> (string \<Rightarrow> bool) \<Rightarrow> (string \<Rightarrow> error + canonical_doc option) \<Rightarrow>
   string option \<Rightarrow> forever_config \<Rightarrow> error + forever_config" where
  "readFromFile isDomain isOrigin safeLoad arg c =
     (case or_path arg (configPath c) of
        None \<Rightarrow> Inl TypeError
      | Some p \<Rightarrow>
          (let configContents = (case files c p of None \<Rightarrow> [] | Some t \<Rightarrow> t)
           in case safeLoad configContents of
                Inl e \<Rightarrow> Inl e
              | Inr d \<Rightarrow>
                  (case validate isDomain isOrigin (case d of None \<Rightarrow> empty_doc | Some x \<Rightarrow> x) of
                     Inl e \<Rightarrow> Inl e
                   | Inr c' \<Rightarrow>
                       Inr (c\<lparr>configPath := Some p, canonical := c',
                               emitted := emitted c @ [''read-config'']\<rparr>))))"

text \<open>
  What \<^verbatim>\<open>yaml.safeDump(_, {skipInvalid: true})\<close> leaves of a document: a value
  \<^verbatim>\<open>undefined\<close> cannot be written, so the pair of an object that holds it and the
  element of an array that is it are skipped.
\<close>

fun skip_undefined :: "jsval \<Rightarrow> jsval" where
  "skip_undefined (JArr xs) = JArr (map skip_undefined (filter (\<lambda>v. v \<noteq> JUndefined) xs))"
| "skip_undefined (JObj kvs) =
     JObj (map (\<lambda>(k, v). (k, skip_undefined v)) (filter (\<lambda>(k, v). v \<noteq> JUndefined) kvs))"
| "skip_undefined v = v"

definition skip_key :: "jsval option \<Rightarrow> jsval option" where
  "skip_key f =
     (case f of None \<Rightarrow> None
      | Some v \<Rightarrow> if v = JUndefined then None else Some (skip_undefined v))"

definition skip_sites :: "('a \<Rightarrow> 'a) \<Rightarrow> 'a sites option \<Rightarrow> 'a sites option" where
  "skip_sites f x =
     (case x of None \<Rightarrow> None | Some (One y) \<Rightarrow> Some (One (f y)) | Some (Many ys) \<Rightarrow> Some (Many (map f ys)))"

definition skip_invalid :: "canonical_doc \<Rightarrow> canonical_doc" where
  "skip_invalid c =
     \<lparr>directory = skip_key (directory c), domain = skip_key (domain c),
      httpMirror = skip_key (httpMirror c), ports = skip_key (ports c),
      letsencrypt = skip_key (letsencrypt c), dashboard = skip_key (dashboard c),
      webapi = skip_key (webapi c),
      dpacks = skip_sites (\<lambda>d. d\<lparr>otherDomains := skip_key (otherDomains d)\<rparr>) (dpacks c),
      proxies = proxies c, redirects = redirects c\<rparr>"

text \<open>
  \<^verbatim>\<open>new ForeverConfig(configPath)\<close>: a new object, with no path and the empty document,
  which reads the file when it is given a path. \<open>fs\<close> is the file system it finds.
\<close>

definition ForeverConfig ::
  "(jsval \<Rightarrow> bool) \<Rightarrow> (string \<Rightarrow> bool) \<Rightarrow> (string \<Rightarrow> error + canonical_doc option) \<Rightarrow>
   (string \<Rightarrow> string option) \<Rightarrow> string option \<Rightarrow> error + forever_config" where
  "ForeverConfig isDomain isOrigin safeLoad fs arg =
     (let this = \<lparr>configPath = None, canonical = empty_doc, files = fs, emitted = []\<rparr>
      in if or_path arg None \<noteq> None then readFromFile isDomain isOrigin safeLoad arg this
         else Inr this)"

text \<open>
  A value that the dump writes whole: it has no \<^verbatim>\<open>undefined\<close> inside. Every value
  parsed from YAML, and every value of a JSON request, is such a value. A document is
  written with its hostnames when the \<^verbatim>\<open>otherDomains\<close> of its mirrors are such values
  (or \<^verbatim>\<open>undefined\<close> itself, which \<^verbatim>\<open>validateDPackCfg\<close> assigns to a missing key).
\<close>

definition dump_keeps :: "jsval \<Rightarrow> bool" where
  "dump_keeps v = (skip_undefined v = v)"

definition domains_writable :: "canonical_doc \<Rightarrow> bool" where
  "domains_writable c =
     (case dpacks c of
        None \<Rightarrow> True
      | Some (One d) \<Rightarrow> dump_keeps (js_get (otherDomains d))
      | Some (Many ds) \<Rightarrow> list_all (\<lambda>d. dump_keeps (js_get (otherDomains d))) ds)"

text \<open>The collections of a document in memory are arrays, when they are set.\<close>

definition is_array_or_unset :: "'a sites option \<Rightarrow> bool" where
  "is_array_or_unset x = (case x of Some (One y) \<Rightarrow> False | _ \<Rightarrow> True)"

definition collections_are_arrays :: "canonical_doc \<Rightarrow> bool" where
  "collections_are_arrays c =
     (is_array_or_unset (dpacks c) \<and> is_array_or_unset (proxies c) \<and> is_array_or_unset (redirects c))"

text \<open>
  Two mirror entries give the same derived vhost (under the same global domain) when
  they agree on \<^verbatim>\<open>url\<close>, on \<^verbatim>\<open>name\<close> and on what \<^verbatim>\<open>hostnames\<close> appends for
  \<^verbatim>\<open>otherDomains\<close>.
\<close>

definition same_view :: "dpack_cfg \<Rightarrow> dpack_cfg \<Rightarrow> bool" where
  "same_view d d' \<longleftrightarrow>
     url d' = url d \<and> name d' = name d \<and>
     concat_arg (js_or (js_get (otherDomains d')) (JArr []))
       = concat_arg (js_or (js_get (otherDomains d)) (JArr []))"

section \<open>The HTTP mirror of \<^verbatim>\<open>src/lib/vhosts/dweb.js\<close>\<close>

text \<open>
  The request as the handler reads it: \<^verbatim>\<open>req.method\<close>, \<^verbatim>\<open>req.path\<close> and
  \<^verbatim>\<open>req.headers.range\<close>.
\<close>

record request =
  req_method :: string
  req_path :: string
  req_range :: "string option"

text \<open>
  The manifest of the archive; a field that is not set is the empty string, which is
  falsy like \<^verbatim>\<open>undefined\<close>.
\<close>

record manifest =
  web_root :: string
  fallback_page :: string
  content_security_policy :: string

text \<open>The result of \<^verbatim>\<open>dpackapi.stat\<close>, with the path the handler stores into it.\<close>

record stat_entry =
  isDirectory :: bool
  size :: nat
  entry_path :: string

text \<open>
  The result of \<^verbatim>\<open>parseRange\<close> (the library \<^verbatim>\<open>range-parser\<close>): an array of ranges
  that carries the unit as its \<^verbatim>\<open>type\<close>, or a negative number for a header that
  is malformed or cannot be satisfied.
\<close>

datatype range_result = Ranges string "(int \<times> int) list" | RangeFailure int

text \<open>
  The value of the variable \<^verbatim>\<open>range\<close> that reaches \<^verbatim>\<open>createReadStream\<close>: falsy when
  there is no header, the first range of a byte range, or the result of the parser as
  it is.
\<close>

datatype range_var = NoRange | FirstRange int int | Unhandled range_result

text \<open>
  What the read stream does first: it delivers data, and \<^verbatim>\<open>mime.identifyStream\<close>
  calls back with the type; or it ends before that; or it fails before that. What
  happens afterwards changes neither status nor headers (\<^verbatim>\<open>headersSent\<close>). A stream
  that does none of the three leaves the request without a response and is not modelled.
\<close>

datatype stream_event = Identified string | EndedEmpty | ReadFailed

text \<open>
  The collaborators of the handler, none of which is part of the repository's files: the
  archive (\<^verbatim>\<open>readManifest\<close>, \<^verbatim>\<open>stat\<close>, \<^verbatim>\<open>createReadStream\<close>), \<^verbatim>\<open>path.join\<close>,
  \<^verbatim>\<open>range-parser\<close> and the page of a directory listing.
\<close>

record archive =
  readManifest :: "manifest option"
  stat :: "string \<Rightarrow> (bool \<times> nat) option"
  joinPaths :: "string \<Rightarrow> string \<Rightarrow> string"
  parseRange :: "nat \<Rightarrow> string \<Rightarrow> range_result"
  createReadStream :: "string \<Rightarrow> range_var \<Rightarrow> stream_event"
  directoryListingPage :: "string \<Rightarrow> string option \<Rightarrow> string"

text \<open>
  The response as the request gets it: the status, the headers set (a later
  \<^verbatim>\<open>res.set\<close> of a name replaces the earlier one) and the body, which is text given
  to \<^verbatim>\<open>res.end\<close> or the data stream piped into the response.
\<close>

datatype body = NoBody | Text string | Piped

record response =
  status :: nat
  headers :: "string \<Rightarrow> string option"
  body :: body

definition res_set :: "string \<Rightarrow> string \<Rightarrow> response \<Rightarrow> response" where
  "res_set k v r = r\<lparr>headers := (headers r)(k \<mapsto> v)\<rparr>"

text \<open>\<^verbatim>\<open>new response\<close>: Express starts with status 200 and nothing set.\<close>

definition fresh_response :: response where
  "fresh_response = \<lparr>status = 200, headers = Map.empty, body = NoBody\<rparr>"

text \<open>
  \<^verbatim>\<open>res.end(data)\<close>. The handler runs under Express only (\<^verbatim>\<open>server.use\<close> in
  \<^verbatim>\<open>start\<close>), so \<^verbatim>\<open>res\<close> is the response of Node's HTTP server: the response to a
  \<^verbatim>\<open>HEAD\<close> request has no body, and what \<^verbatim>\<open>end\<close> is given there is discarded.
\<close>

definition res_end :: "request \<Rightarrow> body \<Rightarrow> response \<Rightarrow> response" where
  "res_end req data r = r\<lparr>body := (if req_method req = ''HEAD'' then NoBody else data)\<rparr>"

text \<open>
  \<^verbatim>\<open>respondError(code, status)\<close>: \<^verbatim>\<open>res.status(code); res.end(code + ' ' + status)\<close>,
  on the response of the request at hand.
\<close>

definition respondError :: "request \<Rightarrow> nat \<Rightarrow> string \<Rightarrow> response \<Rightarrow> response" where
  "respondError req code msg r =
     res_end req (Text (show_nat code @ '' '' @ msg)) (r\<lparr>status := code\<rparr>)"

text \<open>
  \<^verbatim>\<open>tryStat(path)\<close>: nothing when an entry was found before; otherwise the path is put
  under the manifest's \<^verbatim>\<open>web_root\<close> and looked up, a failed lookup leaving the entry
  as it was.
\<close>

definition tryStat ::
  "archive \<Rightarrow> manifest option \<Rightarrow> stat_entry option \<Rightarrow> string \<Rightarrow> stat_entry option" where
  "tryStat A m entry path =
     (case entry of
        Some e \<Rightarrow> Some e
      | None \<Rightarrow>
          (let path' =
             (case m of
                None \<Rightarrow> path
              | Some mf \<Rightarrow>
                  if web_root mf \<noteq> [] then
                    (if path \<noteq> [] then joinPaths A (web_root mf) path else web_root mf)
                  else path)
           in case stat A path' of
                None \<Rightarrow> None
              | Some (d, n) \<Rightarrow> Some \<lparr>isDirectory = d, size = n, entry_path = path'\<rparr>))"

definition endsWith_slash :: "string \<Rightarrow> bool" where
  "endsWith_slash p = (p \<noteq> [] \<and> last p = CHR ''/'')"

text \<open>The lookup in priority order, after \<^verbatim>\<open>entry = false\<close>.\<close>

definition lookup_entry :: "archive \<Rightarrow> manifest option \<Rightarrow> string \<Rightarrow> stat_entry option" where
  "lookup_entry A m p =
     (if endsWith_slash p then
        tryStat A m (tryStat A m (tryStat A m None (p @ ''index.html'')) (p @ ''index.md'')) p
      else tryStat A m (tryStat A m None p) (p @ ''.html''))"

text \<open>
  The range: \<^verbatim>\<open>req.headers.range && parseRange(entry.size, req.headers.range)\<close>, of
  which only a result of type \<^verbatim>\<open>bytes\<close> is handled, by its first range. Indexing an
  array without ranges gives \<^verbatim>\<open>undefined\<close>, whose \<^verbatim>\<open>start\<close> raises a TypeError. The
  result is the status code, the response with the headers, and the range for the read.
\<close>

definition handle_range ::
  "archive \<Rightarrow> request \<Rightarrow> stat_entry \<Rightarrow> response \<Rightarrow> error + nat \<times> response \<times> range_var" where
  "handle_range A req entry r0 =
     (let r = res_set ''Accept-Ranges'' ''bytes'' r0;
          plain = (if size entry \<noteq> 0 then res_set ''Content-Length'' (show_nat (size entry)) r else r)
      in case req_range req of
           None \<Rightarrow> Inr (200, plain, NoRange)
         | Some h \<Rightarrow>
             if h = [] then Inr (200, plain, NoRange)
             else (case parseRange A (size entry) h of
                     Ranges t rs \<Rightarrow>
                       if t = ''bytes'' then
                         (case rs of
                            [] \<Rightarrow> Inl TypeError
                          | (s, e) # rest \<Rightarrow>
                              Inr (206,
                                   res_set ''Content-Length'' (show_int (e - s + 1))
                                     (res_set ''Content-Range''
                                        (''bytes '' @ show_int s @ ''-'' @ show_int e @ ''/''
                                           @ show_nat (size entry)) r),
                                   FirstRange s e))
                       else Inr (200, plain, Unhandled (Ranges t rs))
                   | RangeFailure n \<Rightarrow> Inr (200, plain, Unhandled (RangeFailure n))))"

text \<open>The response to the first event of the read stream.\<close>

definition stream_response ::
  "request \<Rightarrow> string \<Rightarrow> nat \<Rightarrow> response \<Rightarrow> stream_event \<Rightarrow> response" where
  "stream_response req cspHeader statusCode r ev =
     (case ev of
        Identified mimeType \<Rightarrow>
          (let r1 = res_set ''Cache-Control'' ''public, max-age: 60''
                      (res_set ''Access-Control-Allow-Origin'' ''*''
                        (res_set ''Content-Security-Policy'' cspHeader
                          (res_set ''Content-Type'' mimeType r)))
           in if req_method req = ''HEAD'' then res_end req NoBody (r1\<lparr>status := 204\<rparr>)
              else r1\<lparr>status := statusCode, body := Piped\<rparr>)
      | EndedEmpty \<Rightarrow>
          res_end req NoBody
            ((res_set ''Access-Control-Allow-Origin'' ''*''
               (res_set ''Content-Security-Policy'' cspHeader r))\<lparr>status := 200\<rparr>)
      | ReadFailed \<Rightarrow> respondError req 500 ''Failed to read file'' r)"

text \<open>
  A file candidate: the range is handled, the read stream is opened on the entry's path
  and the response follows the stream's first event.
\<close>

definition serve_file :: "archive \<Rightarrow> request \<Rightarrow> string \<Rightarrow> stat_entry \<Rightarrow> error + response" where
  "serve_file A req cspHeader entry =
     (case handle_range A req entry fresh_response of
        Inl err \<Rightarrow> Inl err
      | Inr (statusCode, r, rng) \<Rightarrow>
          Inr (stream_response req cspHeader statusCode r
                 (createReadStream A (entry_path entry) rng)))"

text \<open>The handler that \<^verbatim>\<open>createHttpMirror\<close> returns, applied to a request.\<close>

definition createHttpMirror :: "archive \<Rightarrow> request \<Rightarrow> error + response" where
  "createHttpMirror A req =
     (if req_method req \<noteq> ''GET'' \<and> req_method req \<noteq> ''HEAD'' then
        Inr (respondError req 405 ''Method Not Supported'' fresh_response)
      else
        let m = readManifest A;
            cspHeader = (case m of None \<Rightarrow> [] | Some mf \<Rightarrow> content_security_policy mf);
            isFolder = endsWith_slash (req_path req);
            probe = (if \<not> isFolder then tryStat A m None (req_path req) else None)
        in if \<not> isFolder \<and> (case probe of Some e \<Rightarrow> isDirectory e | None \<Rightarrow> False) then
             Inr (res_end req NoBody
                    ((res_set ''Location'' (req_path req @ ''/'') fresh_response)
                       \<lparr>status := 303\<rparr>))
           else
             (case lookup_entry A m (req_path req) of
                Some e \<Rightarrow>
                  if isDirectory e then
                    (let r = res_set ''Access-Control-Allow-Origin'' ''*''
                               (res_set ''Content-Security-Policy'' cspHeader
                                 (res_set ''Content-Type'' ''text/html'' fresh_response))
                     in if req_method req = ''HEAD'' then
                          Inr (res_end req NoBody (r\<lparr>status := 204\<rparr>))
                        else Inr (res_end req
                                    (Text (directoryListingPage A (req_path req)
                                             (map_option web_root m)))
                                    (r\<lparr>status := 200\<rparr>)))
                  else serve_file A req cspHeader e
              | None \<Rightarrow>
                  (case (case m of
                           None \<Rightarrow> None
                         | Some mf \<Rightarrow>
                             if fallback_page mf \<noteq> [] then tryStat A m None (fallback_page mf)
                             else None) of
                     None \<Rightarrow> Inr (respondError req 404 ''File Not Found'' fresh_response)
                   | Some e \<Rightarrow> serve_file A req cspHeader e)))"

section \<open>Concrete inputs\<close>

text \<open>
  Two content keys, the two spellings of a mirror's address, two mirror entries, a
  configuration object over a document, and a serialiser, for the examples below.
\<close>

definition key_a :: string where "key_a = replicate 64 (CHR ''a'')"
definition key_b :: string where "key_b = replicate 64 (CHR ''b'')"

definition url_a :: string where "url_a = ''dweb://'' @ key_a @ ''/''"
definition url_b :: string where "url_b = ''dweb://'' @ key_b @ ''/''"

text \<open>The key and the address of the first mirror of \<^verbatim>\<open>src/test/config-test.js\<close>.\<close>

definition test_key :: string where
  "test_key = ''1f968afe867f06b0d344c11efc23591c7f8c5fb3b4ac938d6000f330f6ee2a03''"

definition test_url :: string where
  "test_url = ''dweb://1f968afe867f06b0d344c11efc23591c7f8c5fb3b4ac938d6000f330f6ee2a03/''"

definition site_a :: dpack_cfg where
  "site_a = \<lparr>url = key_a, name = Some ''mysite'', otherDomains = Some (JArr [JStr ''mysite.com''])\<rparr>"

definition site_b :: dpack_cfg where
  "site_b = \<lparr>url = url_b, name = Some ''othersite'', otherDomains = None\<rparr>"

definition doc_of :: "dpack_cfg list \<Rightarrow> canonical_doc" where
  "doc_of ds = empty_doc\<lparr>dpacks := Some (Many ds)\<rparr>"

definition config_of :: "canonical_doc \<Rightarrow> forever_config" where
  "config_of c = \<lparr>configPath = Some ''forever.yml'', canonical = c, files = Map.empty, emitted = []\<rparr>"

definition dump0 :: "canonical_doc \<Rightarrow> string" where
  "dump0 c = ''yaml''"

text \<open>A platform, with the value of \<^verbatim>\<open>NODE_ENV\<close> left open.\<close>

definition platform0 :: "string option \<Rightarrow> platform" where
  "platform0 e =
     \<lparr>os_homedir = ''/home/bob'', os_hostname = ''box.local'', node_env = e,
      path_join = (\<lambda>a b. a @ ''/'' @ b), untildify = (\<lambda>p. p)\<rparr>"

text \<open>
  An archive with one file of 20 bytes and no manifest, whose range parser knows the
  header \<^verbatim>\<open>bytes=0-9\<close>, and whose read stream starts with the given event.
\<close>

definition parse0 :: "nat \<Rightarrow> string \<Rightarrow> range_result" where
  "parse0 n h = (if h = ''bytes=0-9'' \<and> 9 < n then Ranges ''bytes'' [(0, 9)] else RangeFailure (- 2))"

definition stat0 :: "string \<Rightarrow> (bool \<times> nat) option" where
  "stat0 p = (if p = ''/file.bin'' then Some (False, 20) else None)"

definition archive_of :: "stream_event \<Rightarrow> archive" where
  "archive_of ev =
     \<lparr>readManifest = None, stat = stat0, joinPaths = (\<lambda>a b. a @ b), parseRange = parse0,
      createReadStream = (\<lambda>p r. ev), directoryListingPage = (\<lambda>p w. ''<html></html>'')\<rparr>"

text \<open>An archive that holds one directory, \<^verbatim>\<open>/docs/\<close>, and nothing else.\<close>

definition stat1 :: "string \<Rightarrow> (bool \<times> nat) option" where
  "stat1 p = (if p = ''/docs'' \<or> p = ''/docs/'' then Some (True, 0) else None)"

definition archive_dir :: archive where
  "archive_dir =
     \<lparr>readManifest = None, stat = stat1, joinPaths = (\<lambda>a b. a @ b), parseRange = parse0,
      createReadStream = (\<lambda>p r. EndedEmpty), directoryListingPage = (\<lambda>p w. ''<html></html>'')\<rparr>"

text \<open>
  A full document in its validated form, stand-ins for the two validators, and a
  loader that reads back what the serialiser \<open>dump0\<close> wrote of that document.
\<close>

definition isDomain0 :: "jsval \<Rightarrow> bool" where
  "isDomain0 v = (case v of JStr s \<Rightarrow> s \<noteq> [] | _ \<Rightarrow> False)"

definition isOrigin0 :: "string \<Rightarrow> bool" where
  "isOrigin0 t = (take 4 t = ''http'')"

definition doc_full :: canonical_doc where
  "doc_full = empty_doc
     \<lparr>domain := Some (JStr ''foo.bar''),
      dpacks := Some (Many [site_a, site_b\<lparr>otherDomains := Some JUndefined\<rparr>]),
      proxies := Some (Many [\<lparr>pfrom = ''myproxy.com'', pto = ''https://mysite.com/''\<rparr>]),
      redirects := Some (Many [\<lparr>rfrom = ''myredirect.com'', rto = ''https://mysite.com''\<rparr>])\<rparr>"

definition safeLoad0 :: "string \<Rightarrow> error + canonical_doc option" where
  "safeLoad0 t = (if t = ''yaml'' then Inr (Some (skip_invalid doc_full)) else Inr None)"

text \<open>
  The configuration object as the constructor leaves it without a path, and as
  \<^verbatim>\<open>readFromFile\<close> leaves it after a file that does not exist.
\<close>

definition new_config :: forever_config where
  "new_config = \<lparr>configPath = None, canonical = empty_doc, files = Map.empty, emitted = []\<rparr>"

definition loaded_config :: forever_config where
  "loaded_config =
     \<lparr>configPath = Some ''forever.yml'', canonical = empty_doc, files = Map.empty,
      emitted = [''read-config'']\<rparr>"

text \<open>The entries a configuration object holds after an operation.\<close>

definition stored_dpacks :: "error + forever_config \<Rightarrow> error + dpack_cfg list" where
  "stored_dpacks r = (case r of Inl e \<Rightarrow> Inl e | Inr c \<Rightarrow> dpacks_array (canonical c))"

section \<open>Properties of key extraction\<close>

lemma hex_not_w: "is_hex c \<Longrightarrow> c \<noteq> CHR ''w'' \<and> c \<noteq> CHR ''W''"
  by (auto simp: is_hex_def)

lemma key_body_iff:
  "key_body r = Some k \<longleftrightarrow> hex64 k \<and> (r = k \<or> r = k @ ''/'')"
proof
  assume "key_body r = Some k"
  then have h: "64 \<le> length r" "list_all is_hex (take 64 r)"
      "drop 64 r = [] \<or> drop 64 r = ''/''" "k = take 64 r"
    by (auto simp: key_body_def split: if_splits)
  have "hex64 k" using h by (simp add: hex64_def)
  moreover have "r = k \<or> r = k @ ''/''"
    using h(3,4) append_take_drop_id [of 64 r] by (metis append_Nil2)
  ultimately show "hex64 k \<and> (r = k \<or> r = k @ ''/'')" ..
next
  assume "hex64 k \<and> (r = k \<or> r = k @ ''/'')"
  then show "key_body r = Some k"
    by (auto simp: key_body_def hex64_def)
qed

lemma scheme_match_length: "scheme_match p \<Longrightarrow> length p = 7"
  by (auto simp: scheme_match_def split: list.splits)

lemma scheme_match_snd: "scheme_match p \<Longrightarrow> p ! 1 = CHR ''w'' \<or> p ! 1 = CHR ''W''"
  by (auto simp: scheme_match_def split: list.splits)

lemma hex64_no_scheme:
  assumes "hex64 k" shows "\<not> scheme_match (take 7 (k @ t))"
proof
  assume m: "scheme_match (take 7 (k @ t))"
  from assms have l: "length k = 64" and a: "list_all is_hex k" by (auto simp: hex64_def)
  from l have "take 7 (k @ t) ! 1 = k ! 1" by simp
  moreover from a l have "is_hex (k ! 1)" by (simp add: list_all_length)
  ultimately show False using scheme_match_snd [OF m] hex_not_w by metis
qed

lemma regex_iff:
  "dweb_regex_exec s = Some k \<longleftrightarrow>
     hex64 k \<and> (\<exists>p t. s = p @ k @ t \<and> (p = [] \<or> scheme_match p) \<and> (t = [] \<or> t = ''/''))"
  (is "?L \<longleftrightarrow> ?R")
proof
  assume L: ?L
  show ?R
  proof (cases "scheme_match (take 7 s) \<and> key_body (drop 7 s) = Some k")
    case True
    then have "hex64 k" "drop 7 s = k \<or> drop 7 s = k @ ''/''"
      by (auto simp: key_body_iff)
    moreover have "s = take 7 s @ drop 7 s" by simp
    ultimately show ?thesis using True
      by (metis append_Nil2)
  next
    case False
    with L have "key_body s = Some k"
      by (auto simp: dweb_regex_exec_def split: if_splits option.splits)
    then show ?thesis
      by (auto simp: key_body_iff intro: exI [of _ "[]"])
  qed
next
  assume R: ?R
  then obtain p t where h: "hex64 k" "s = p @ k @ t" "p = [] \<or> scheme_match p"
      "t = [] \<or> t = ''/''" by blast
  show ?L
  proof (cases "p = []")
    case True
    with h hex64_no_scheme [of k t] have "\<not> scheme_match (take 7 s)" by simp
    moreover from h True have "key_body s = Some k" by (auto simp: key_body_iff)
    ultimately show ?thesis by (simp add: dweb_regex_exec_def)
  next
    case False
    with h have m: "scheme_match p" by simp
    then have "length p = 7" by (rule scheme_match_length)
    with h have "take 7 s = p" "drop 7 s = k @ t" by simp_all
    moreover from h have "key_body (k @ t) = Some k" by (auto simp: key_body_iff)
    ultimately show ?thesis using m by (simp add: dweb_regex_exec_def)
  qed
qed

lemma getDPackKey_error: "getDPackKey u = Inl e \<Longrightarrow> e = TypeError"
  by (auto simp: getDPackKey_def split: option.splits)

lemma isDWebUrl_key: "isDWebUrl u \<longleftrightarrow> (\<exists>k. getDPackKey u = Inr k)"
  by (auto simp: isDWebUrl_def getDPackKey_def split: option.splits)

lemma key_a_key [simp]: "getDPackKey key_a = Inr key_a"
  by (simp add: key_a_def getDPackKey_def dweb_regex_exec_def key_body_def scheme_match_def
      is_hex_def list_all_iff)

lemma key_b_key [simp]: "getDPackKey key_b = Inr key_b"
  by (simp add: key_b_def getDPackKey_def dweb_regex_exec_def key_body_def scheme_match_def
      is_hex_def list_all_iff)

lemma url_a_key [simp]: "getDPackKey url_a = Inr key_a"
  by (simp add: url_a_def key_a_def getDPackKey_def dweb_regex_exec_def key_body_def
      scheme_match_def is_hex_def list_all_iff)

lemma url_b_key [simp]: "getDPackKey url_b = Inr key_b"
  by (simp add: url_b_def key_b_def getDPackKey_def dweb_regex_exec_def key_body_def
      scheme_match_def is_hex_def list_all_iff)

lemma url_a_neq [simp]: "key_a \<noteq> url_a" "url_a \<noteq> key_a"
  by (auto simp: url_a_def key_a_def dest: arg_cong [where f = length])

lemma key_a_b [simp]: "key_a \<noteq> key_b" "key_b \<noteq> key_a"
  by (simp_all add: key_a_def key_b_def replicate_eq_replicate)

lemma valid_sites [simp]: "isDWebUrl (url site_a)" "isDWebUrl (url site_b)"
  by (simp_all add: isDWebUrl_key site_a_def site_b_def)

text \<open>
  Claim C4, as the code has it. \<^verbatim>\<open>getDPackKey\<close> returns a key \<open>k\<close> exactly when
  \<open>k\<close> is 64 hexadecimal digits of either case and the input is \<open>k\<close> with, before
  it, nothing or the scheme \<^verbatim>\<open>dweb://\<close> in any mix of cases and, after it, nothing or
  one slash; \<open>k\<close> is returned as written. That is four shapes, not three: the bare key
  followed by a slash is accepted too. On every other string the extraction raises a
  TypeError.
\<close>

theorem getDPackKey_accepts:
  "(getDPackKey s = Inr k \<longleftrightarrow>
      hex64 k \<and>
      (\<exists>p t. s = p @ k @ t \<and> (p = [] \<or> scheme_match p) \<and> (t = [] \<or> t = ''/''))) \<and>
   (getDPackKey s = Inl TypeError \<longleftrightarrow>
      \<not> (\<exists>k p t. hex64 k \<and> s = p @ k @ t \<and> (p = [] \<or> scheme_match p) \<and>
            (t = [] \<or> t = ''/'')))"
proof -
  have a: "getDPackKey s = Inr k \<longleftrightarrow>
      hex64 k \<and>
      (\<exists>p t. s = p @ k @ t \<and> (p = [] \<or> scheme_match p) \<and> (t = [] \<or> t = ''/''))" for k
    using regex_iff [of s k] by (auto simp: getDPackKey_def split: option.splits)
  have "getDPackKey s = Inl TypeError \<longleftrightarrow> \<not> (\<exists>k. getDPackKey s = Inr k)"
    by (cases "getDPackKey s") (auto dest: getDPackKey_error)
  with a show ?thesis by blast
qed

theorem getDPackKey_accepts_witness:
  "getDPackKey url_a = Inr key_a \<and> hex64 key_a \<and> scheme_match ''dweb://'' \<and>
   getDPackKey ''dweb://beef'' = Inl TypeError"
proof -
  have h: "hex64 key_a" by (simp add: hex64_def key_a_def list_all_iff is_hex_def)
  have m: "scheme_match ''dweb://''" by (simp add: scheme_match_def)
  have "\<exists>p t. url_a = p @ key_a @ t \<and> (p = [] \<or> scheme_match p) \<and> (t = [] \<or> t = ''/'')"
    using m unfolding url_a_def by blast
  with h have "getDPackKey url_a = Inr key_a"
    using getDPackKey_accepts [of url_a key_a] by blast
  moreover have "getDPackKey ''dweb://beef'' = Inl TypeError"
    by (simp add: getDPackKey_def dweb_regex_exec_def key_body_def scheme_match_def)
  ultimately show ?thesis using h m by blast
qed

text \<open>
  Against C4 as stated: the bare key followed by a slash (65 characters) and the key
  after an upper-case scheme are none of the three shapes, and both are accepted.
\<close>

theorem getDPackKey_shapes_counterexample:
  "getDPackKey (key_a @ ''/'') = Inr key_a \<and> spec_key_shapes (key_a @ ''/'') = None \<and>
   length (key_a @ ''/'') = 65 \<and>
   getDPackKey (''DWEB://'' @ key_a) = Inr key_a \<and> spec_key_shapes (''DWEB://'' @ key_a) = None"
  by (simp add: key_a_def getDPackKey_def dweb_regex_exec_def key_body_def scheme_match_def
      spec_key_shapes_def hex64_def is_hex_def list_all_iff)

section \<open>Properties of the derived ids\<close>

lemma dpack_id_of_key:
  "getDPackKey (url d) = Inr k \<Longrightarrow> dpack_id d = Inr (''dpack-'' @ k)"
  by (simp add: dpack_id_def dpack_dPackKey_def)

lemma test_url_key: "getDPackKey test_url = Inr test_key"
  by (simp add: test_url_def test_key_def getDPackKey_def dweb_regex_exec_def key_body_def
      scheme_match_def is_hex_def)

text \<open>
  Claim C3 at the first mirror entry of the repository's test. The ids of a proxy and
  of a redirect are the vhost type, a dash and \<^verbatim>\<open>from\<close>, as claimed. The id of the
  mirror is \<^verbatim>\<open>dpack-\<close> followed by the content key: it is not the vhost type of the
  mirror (\<^verbatim>\<open>dweb\<close>, the claim's "mirror") followed by a dash and the key, which is the
  id the test expects.
\<close>

theorem mirror_id_prefix:
  "dpack_dPackKey \<lparr>url = test_url, name = Some ''mysite'', otherDomains = None\<rparr> = Inr test_key \<and>
   dpack_vhostType \<lparr>url = test_url, name = Some ''mysite'', otherDomains = None\<rparr> = ''dweb'' \<and>
   dpack_id \<lparr>url = test_url, name = Some ''mysite'', otherDomains = None\<rparr>
     = Inr (''dpack-'' @ test_key) \<and>
   dpack_id \<lparr>url = test_url, name = Some ''mysite'', otherDomains = None\<rparr>
     \<noteq> Inr (''dweb-'' @ test_key) \<and>
   dpack_id \<lparr>url = test_url, name = Some ''mysite'', otherDomains = None\<rparr>
     \<noteq> Inr (''mirror-'' @ test_key) \<and>
   proxy_id \<lparr>pfrom = ''myproxy.com'', pto = ''https://mysite.com/''\<rparr>
     = proxy_vhostType \<lparr>pfrom = ''myproxy.com'', pto = ''https://mysite.com/''\<rparr>
         @ ''-'' @ ''myproxy.com'' \<and>
   redirect_id \<lparr>rfrom = ''myredirect.com'', rto = ''https://mysite.com''\<rparr>
     = redirect_vhostType \<lparr>rfrom = ''myredirect.com'', rto = ''https://mysite.com''\<rparr>
         @ ''-'' @ ''myredirect.com''"
  by (simp add: dpack_id_def dpack_dPackKey_def dpack_vhostType_def test_url_key proxy_id_def
      proxy_vhostType_def redirect_id_def redirect_vhostType_def)

section \<open>Properties of the site operations\<close>

lemma find_dpack_error: "find_dpack k ds = Inl e \<Longrightarrow> e = TypeError"
  by (induction ds arbitrary: e) (auto split: sum.splits if_splits option.splits dest: getDPackKey_error)

lemma filter_dpacks_error: "filter_dpacks k ds = Inl e \<Longrightarrow> e = TypeError"
  by (induction ds arbitrary: e) (auto split: sum.splits if_splits dest: getDPackKey_error)

lemma find_dpack_absent:
  "list_all (\<lambda>d. isDWebUrl (url d)) ds \<Longrightarrow> \<forall>d\<in>set ds. getDPackKey (url d) \<noteq> Inr k \<Longrightarrow>
   find_dpack k ds = Inr None"
  by (induction ds) (auto simp: isDWebUrl_key split: sum.splits)

lemma find_dpack_first:
  "list_all (\<lambda>d. isDWebUrl (url d)) ds \<Longrightarrow> i < length ds \<Longrightarrow>
   getDPackKey (url (ds ! i)) = Inr k \<Longrightarrow>
   \<forall>j<i. getDPackKey (url (ds ! j)) \<noteq> Inr k \<Longrightarrow>
   find_dpack k ds = Inr (Some i)"
proof (induction ds arbitrary: i)
  case Nil
  then show ?case by simp
next
  case (Cons d ds)
  show ?case
  proof (cases i)
    case 0
    with Cons.prems show ?thesis by simp
  next
    case (Suc n)
    with Cons.prems have "getDPackKey (url d) \<noteq> Inr k" by auto
    moreover from Cons.prems obtain k' where "getDPackKey (url d) = Inr k'"
      by (auto simp: isDWebUrl_key)
    moreover have "find_dpack k ds = Inr (Some n)"
      using Cons.prems Suc by (intro Cons.IH) auto
    ultimately show ?thesis using Suc by simp
  qed
qed

lemma filter_dpacks_valid:
  "list_all (\<lambda>d. isDWebUrl (url d)) ds \<Longrightarrow>
   filter_dpacks k ds = Inr (filter (\<lambda>d. getDPackKey (url d) \<noteq> Inr k) ds)"
  by (induction ds) (auto simp: isDWebUrl_key)

lemma filter_dpacks_append:
  "filter_dpacks k (xs @ ys) =
     (case filter_dpacks k xs of Inl e \<Rightarrow> Inl e
      | Inr xs' \<Rightarrow> (case filter_dpacks k ys of Inl e \<Rightarrow> Inl e | Inr ys' \<Rightarrow> Inr (xs' @ ys')))"
  by (induction xs) (auto split: sum.splits dest: getDPackKey_error filter_dpacks_error)

lemma writeToFile_path:
  "configPath c = Some p \<Longrightarrow> p \<noteq> [] \<Longrightarrow>
   writeToFile safeDump None c =
     Inr (c\<lparr>files := (files c)(p \<mapsto> safeDump (canonical c)),
             emitted := emitted c @ [''wrote-config'']\<rparr>)"
  by (simp add: writeToFile_def or_path_def)

lemma validate_empty_doc: "validate isDomain isOrigin empty_doc = Inr empty_doc"
  by (simp add: validate_def check_settings_def empty_doc_def guarded_def check_def
      validate_sites_def js_get_def)

text \<open>
  Claim C10. On a configuration whose canonical document has no \<^verbatim>\<open>dpacks\<close>
  collection (the document of an empty or missing file), \<^verbatim>\<open>addDPack\<close>,
  \<^verbatim>\<open>updateDPack\<close> and \<^verbatim>\<open>removeDPack\<close> each raise a TypeError: none of them is a
  silent no-op there, and none writes the file. The witness is the configuration read
  from a file that does not exist.
\<close>

theorem site_mutation_needs_dpacks:
  assumes "dpacks (canonical c) = None"
  shows "addDPack safeDump c dpackCfg = Inl TypeError \<and>
         updateDPack safeDump c k dpackCfg = Inl TypeError \<and>
         removeDPack safeDump c k = Inl TypeError"
  using assms
  by (auto simp: addDPack_def updateDPack_def removeDPack_def dpacks_array_def
      split: sum.splits dest: getDPackKey_error)

theorem site_mutation_needs_dpacks_witness:
  "readFromFile isDomain0 isOrigin0 safeLoad0 (Some ''forever.yml'') new_config = Inr loaded_config \<and>
   dpacks (canonical loaded_config) = None \<and>
   addDPack dump0 loaded_config site_a = Inl TypeError \<and>
   updateDPack dump0 loaded_config key_a site_a = Inl TypeError \<and>
   removeDPack dump0 loaded_config key_a = Inl TypeError"
proof -
  have r: "readFromFile isDomain0 isOrigin0 safeLoad0 (Some ''forever.yml'') new_config
      = Inr loaded_config"
    by (simp add: readFromFile_def or_path_def new_config_def loaded_config_def safeLoad0_def
        validate_empty_doc)
  have h: "dpacks (canonical loaded_config) = None"
    by (simp add: loaded_config_def empty_doc_def)
  show ?thesis
    using r h site_mutation_needs_dpacks [OF h, of dump0 site_a key_a] by simp
qed

lemma updateDPack_found:
  assumes "dpacks (canonical c) = Some (Many ds)" "configPath c = Some p" "p \<noteq> []"
    "find_dpack k ds = Inr (Some i)"
  shows "updateDPack safeDump c k dpackCfg =
     Inr (c\<lparr>canonical := (canonical c)
               \<lparr>dpacks := Some (Many (ds[i := update_entry (ds ! i) dpackCfg]))\<rparr>,
            files := (files c)(p \<mapsto> safeDump ((canonical c)
               \<lparr>dpacks := Some (Many (ds[i := update_entry (ds ! i) dpackCfg]))\<rparr>)),
            emitted := emitted c @ [''wrote-config'']\<rparr>)"
  using assms by (simp add: updateDPack_def dpacks_array_def writeToFile_path)

lemma updateDPack_absent:
  assumes "dpacks (canonical c) = Some (Many ds)" "find_dpack k ds = Inr None"
  shows "updateDPack safeDump c k dpackCfg = Inr c"
  using assms by (simp add: updateDPack_def dpacks_array_def)

text \<open>
  Claim C1, as the code has it. On a configuration with valid stored entries and a
  path to write to: when no stored entry has the key, \<^verbatim>\<open>updateDPack\<close> returns the
  configuration as it was, with nothing written. Otherwise the first entry with the key
  gets the \<^verbatim>\<open>url\<close> of the payload as its \<^verbatim>\<open>url\<close> (it is overwritten, not
  preserved), its \<^verbatim>\<open>name\<close> and every other entry stay as they were, and the document
  is written; the content key of the entry is unchanged when the payload's \<^verbatim>\<open>url\<close>
  carries the key the entry was found by.
\<close>

theorem updateDPack_sets_url:
  assumes "dpacks (canonical c) = Some (Many ds)"
    and "list_all (\<lambda>d. isDWebUrl (url d)) ds"
    and "configPath c = Some p" and "p \<noteq> []"
  shows "((\<forall>d\<in>set ds. getDPackKey (url d) \<noteq> Inr k) \<longrightarrow>
            updateDPack safeDump c k dpackCfg = Inr c) \<and>
         (\<forall>i<length ds.
            getDPackKey (url (ds ! i)) = Inr k \<and> (\<forall>j<i. getDPackKey (url (ds ! j)) \<noteq> Inr k) \<longrightarrow>
            (\<exists>c'. updateDPack safeDump c k dpackCfg = Inr c' \<and>
               files c' p = Some (safeDump (canonical c')) \<and>
               (\<exists>ds'. dpacks (canonical c') = Some (Many ds') \<and> length ds' = length ds \<and>
                  url (ds' ! i) = url dpackCfg \<and>
                  name (ds' ! i) = name (ds ! i) \<and>
                  (\<forall>j<length ds. j \<noteq> i \<longrightarrow> ds' ! j = ds ! j) \<and>
                  (getDPackKey (url dpackCfg) = Inr k \<longrightarrow>
                     dpack_dPackKey (ds' ! i) = dpack_dPackKey (ds ! i)))))"
proof (intro conjI impI allI)
  assume "\<forall>d\<in>set ds. getDPackKey (url d) \<noteq> Inr k"
  with assms(2) have "find_dpack k ds = Inr None" by (rule find_dpack_absent)
  with assms(1) show "updateDPack safeDump c k dpackCfg = Inr c" by (rule updateDPack_absent)
next
  fix i
  assume i: "i < length ds"
    and "getDPackKey (url (ds ! i)) = Inr k \<and> (\<forall>j<i. getDPackKey (url (ds ! j)) \<noteq> Inr k)"
  then have f: "find_dpack k ds = Inr (Some i)"
    using assms(2) by (intro find_dpack_first) auto
  let ?ds = "ds[i := update_entry (ds ! i) dpackCfg]"
  note u = updateDPack_found [OF assms(1,3,4) f, of safeDump dpackCfg]
  have "url (?ds ! i) = url dpackCfg" "name (?ds ! i) = name (ds ! i)"
    using i by (simp_all add: update_entry_def)
  moreover have "\<forall>j<length ds. j \<noteq> i \<longrightarrow> ?ds ! j = ds ! j" by simp
  moreover have "getDPackKey (url dpackCfg) = Inr k \<longrightarrow>
      dpack_dPackKey (?ds ! i) = dpack_dPackKey (ds ! i)"
    using i \<open>getDPackKey (url (ds ! i)) = Inr k \<and> _\<close> \<open>url (?ds ! i) = url dpackCfg\<close>
    by (simp add: dpack_dPackKey_def)
  ultimately show "\<exists>c'. updateDPack safeDump c k dpackCfg = Inr c' \<and>
               files c' p = Some (safeDump (canonical c')) \<and>
               (\<exists>ds'. dpacks (canonical c') = Some (Many ds') \<and> length ds' = length ds \<and>
                  url (ds' ! i) = url dpackCfg \<and>
                  name (ds' ! i) = name (ds ! i) \<and>
                  (\<forall>j<length ds. j \<noteq> i \<longrightarrow> ds' ! j = ds ! j) \<and>
                  (getDPackKey (url dpackCfg) = Inr k \<longrightarrow>
                     dpack_dPackKey (ds' ! i) = dpack_dPackKey (ds ! i)))"
    unfolding u by simp
qed

theorem updateDPack_sets_url_witness:
  "dpacks (canonical (config_of (doc_of [site_a, site_b]))) = Some (Many [site_a, site_b]) \<and>
   list_all (\<lambda>d. isDWebUrl (url d)) [site_a, site_b] \<and>
   configPath (config_of (doc_of [site_a, site_b])) = Some ''forever.yml'' \<and>
   updateDPack dump0 (config_of (doc_of [site_a])) key_b site_b = Inr (config_of (doc_of [site_a])) \<and>
   (\<exists>c'. updateDPack dump0 (config_of (doc_of [site_a, site_b])) key_b
           \<lparr>url = key_b, name = None, otherDomains = None\<rparr> = Inr c' \<and>
         (\<exists>ds'. dpacks (canonical c') = Some (Many ds') \<and> url (ds' ! 1) = key_b \<and>
            name (ds' ! 1) = Some ''othersite'' \<and> ds' ! 0 = site_a \<and>
            dpack_dPackKey (ds' ! 1) = dpack_dPackKey site_b))"
proof -
  let ?c = "config_of (doc_of [site_a, site_b])"
  let ?c1 = "config_of (doc_of [site_a])"
  let ?u = "\<lparr>url = key_b, name = None, otherDomains = None\<rparr>"
  have h1: "dpacks (canonical ?c) = Some (Many [site_a, site_b])"
    and h3: "configPath ?c = Some ''forever.yml''"
    and g1: "dpacks (canonical ?c1) = Some (Many [site_a])"
    and g3: "configPath ?c1 = Some ''forever.yml''"
    by (simp_all add: config_of_def doc_of_def)
  have h2: "list_all (\<lambda>d. isDWebUrl (url d)) [site_a, site_b]"
    and g2: "list_all (\<lambda>d. isDWebUrl (url d)) [site_a]" by simp_all
  have h4: "''forever.yml'' \<noteq> []" by simp
  have a: "updateDPack dump0 ?c1 key_b site_b = Inr ?c1"
    using updateDPack_sets_url [OF g1 g2 g3 h4, of key_b dump0 site_b]
    by (simp add: site_a_def)
  have "\<exists>c'. updateDPack dump0 ?c key_b ?u = Inr c' \<and>
               files c' ''forever.yml'' = Some (dump0 (canonical c')) \<and>
               (\<exists>ds'. dpacks (canonical c') = Some (Many ds') \<and> length ds' = length [site_a, site_b] \<and>
                  url (ds' ! 1) = url ?u \<and>
                  name (ds' ! 1) = name ([site_a, site_b] ! 1) \<and>
                  (\<forall>j<length [site_a, site_b]. j \<noteq> 1 \<longrightarrow> ds' ! j = [site_a, site_b] ! j) \<and>
                  (getDPackKey (url ?u) = Inr key_b \<longrightarrow>
                     dpack_dPackKey (ds' ! 1) = dpack_dPackKey ([site_a, site_b] ! 1)))"
    using updateDPack_sets_url [OF h1 h2 h3 h4, of key_b dump0 ?u, THEN conjunct2, rule_format, of 1]
    by (simp add: site_a_def site_b_def)
  then have b: "\<exists>c'. updateDPack dump0 ?c key_b ?u = Inr c' \<and>
         (\<exists>ds'. dpacks (canonical c') = Some (Many ds') \<and> url (ds' ! 1) = key_b \<and>
            name (ds' ! 1) = Some ''othersite'' \<and> ds' ! 0 = site_a \<and>
            dpack_dPackKey (ds' ! 1) = dpack_dPackKey site_b)"
    by (auto simp: site_b_def)
  show ?thesis using h1 h2 h3 a b by blast
qed

text \<open>
  Against C1 as stated: an update through the address \<^verbatim>\<open>dweb://<key>/\<close> of an entry
  stored under its bare key changes the stored \<^verbatim>\<open>url\<close>, and a payload with another
  key changes the content key of the entry.
\<close>

theorem updateDPack_url_counterexample:
  "stored_dpacks (updateDPack dump0 (config_of (doc_of [site_a])) key_a
       \<lparr>url = url_a, name = None, otherDomains = None\<rparr>) =
     Inr [\<lparr>url = url_a, name = Some ''mysite'', otherDomains = None\<rparr>] \<and>
   url site_a = key_a \<and> key_a \<noteq> url_a \<and>
   stored_dpacks (updateDPack dump0 (config_of (doc_of [site_a])) key_a site_b) =
     Inr [\<lparr>url = url_b, name = Some ''mysite'', otherDomains = None\<rparr>] \<and>
   dpack_dPackKey site_a = Inr key_a \<and>
   dpack_dPackKey \<lparr>url = url_b, name = Some ''mysite'', otherDomains = None\<rparr>
     = Inr key_b \<and> key_a \<noteq> key_b"
  by (simp add: stored_dpacks_def updateDPack_def dpacks_array_def config_of_def doc_of_def
      site_a_def site_b_def writeToFile_def or_path_def update_entry_def js_get_def
      dpack_dPackKey_def)

text \<open>
  Claim C5, as the code has it. For an existing mirror entry, \<^verbatim>\<open>updateDPack\<close> with a
  payload whose \<^verbatim>\<open>otherDomains\<close> is omitted, or is any falsy value, leaves the stored
  entry with no \<^verbatim>\<open>otherDomains\<close> field; a payload whose \<^verbatim>\<open>otherDomains\<close> is an
  array, the empty array included (an array is truthy), stores that array.
\<close>

theorem updateDPack_otherDomains:
  assumes "dpacks (canonical c) = Some (Many ds)"
    and "list_all (\<lambda>d. isDWebUrl (url d)) ds"
    and "configPath c = Some p" and "p \<noteq> []"
    and "i < length ds" and "getDPackKey (url (ds ! i)) = Inr k"
    and "\<forall>j<i. getDPackKey (url (ds ! j)) \<noteq> Inr k"
  shows "\<exists>c' ds'. updateDPack safeDump c k dpackCfg = Inr c' \<and>
           dpacks (canonical c') = Some (Many ds') \<and>
           (\<not> truthy (js_get (otherDomains dpackCfg)) \<longrightarrow> otherDomains (ds' ! i) = None) \<and>
           (otherDomains dpackCfg = None \<longrightarrow> otherDomains (ds' ! i) = None) \<and>
           (\<forall>xs. otherDomains dpackCfg = Some (JArr xs) \<longrightarrow>
              otherDomains (ds' ! i) = Some (JArr xs))"
proof -
  have f: "find_dpack k ds = Inr (Some i)"
    using assms(2,5,6,7) by (rule find_dpack_first)
  note u = updateDPack_found [OF assms(1,3,4) f, of safeDump dpackCfg]
  show ?thesis unfolding u using assms(5)
    by (auto simp: update_entry_def js_get_def)
qed

theorem updateDPack_otherDomains_witness:
  "dpacks (canonical (config_of (doc_of [site_a]))) = Some (Many [site_a]) \<and>
   list_all (\<lambda>d. isDWebUrl (url d)) [site_a] \<and>
   configPath (config_of (doc_of [site_a])) = Some ''forever.yml'' \<and>
   getDPackKey (url ([site_a] ! 0)) = Inr key_a \<and>
   (\<exists>c' ds'. updateDPack dump0 (config_of (doc_of [site_a])) key_a
        \<lparr>url = url_a, name = None, otherDomains = None\<rparr> = Inr c' \<and>
      dpacks (canonical c') = Some (Many ds') \<and> otherDomains (ds' ! 0) = None)"
proof -
  let ?c = "config_of (doc_of [site_a])"
  have h1: "dpacks (canonical ?c) = Some (Many [site_a])"
    and h3: "configPath ?c = Some ''forever.yml''"
    by (simp_all add: config_of_def doc_of_def)
  have h2: "list_all (\<lambda>d. isDWebUrl (url d)) [site_a]" by simp
  have h4: "''forever.yml'' \<noteq> []" by simp
  have h5: "0 < length [site_a]" by simp
  have h6: "getDPackKey (url ([site_a] ! 0)) = Inr key_a" by (simp add: site_a_def)
  have h7: "\<forall>j<0. getDPackKey (url ([site_a] ! j)) \<noteq> Inr key_a" by simp
  show ?thesis
    using h1 h2 h3 h6
      updateDPack_otherDomains [OF h1 h2 h3 h4 h5 h6 h7, of dump0
        "\<lparr>url = url_a, name = None, otherDomains = None\<rparr>"]
    by auto
qed

text \<open>Against C5 as stated: an empty list in the payload is stored as an empty list.\<close>

theorem updateDPack_empty_list_counterexample:
  "stored_dpacks (updateDPack dump0 (config_of (doc_of [site_a])) key_a
       \<lparr>url = key_a, name = None, otherDomains = Some (JArr [])\<rparr>) =
     Inr [\<lparr>url = key_a, name = Some ''mysite'', otherDomains = Some (JArr [])\<rparr>]"
  by (simp add: stored_dpacks_def updateDPack_def dpacks_array_def config_of_def doc_of_def
      site_a_def writeToFile_def or_path_def update_entry_def js_get_def)

lemma find_dpack_append_absent:
  "find_dpack k ds = Inr None \<Longrightarrow> getDPackKey (url e) = Inr k \<Longrightarrow>
   filter_dpacks k (ds @ [e]) = Inr ds"
  by (induction ds) (auto split: sum.splits if_splits option.splits)

text \<open>
  Claim C6, as the code has it. On a configuration with valid stored entries and a path
  to write to, and for an entry whose key no stored entry has: \<^verbatim>\<open>addDPack\<close> appends
  the entry, and \<^verbatim>\<open>removeDPack\<close> with its key then yields the original list, in the
  original order.
\<close>

theorem add_then_remove:
  assumes "dpacks (canonical c) = Some (Many ds)"
    and "list_all (\<lambda>d. isDWebUrl (url d)) ds"
    and "configPath c = Some p" and "p \<noteq> []"
    and "getDPackKey (url e) = Inr k"
    and "\<forall>d\<in>set ds. getDPackKey (url d) \<noteq> Inr k"
  shows "\<exists>c1 c2. addDPack safeDump c e = Inr c1 \<and>
           dpacks (canonical c1) = Some (Many (ds @ [e])) \<and>
           removeDPack safeDump c1 k = Inr c2 \<and>
           dpacks (canonical c2) = Some (Many ds)"
proof -
  have f: "find_dpack k ds = Inr None" using assms(2,6) by (rule find_dpack_absent)
  let ?c1 = "c\<lparr>canonical := (canonical c)\<lparr>dpacks := Some (Many (ds @ [e]))\<rparr>\<rparr>"
  have p1: "configPath ?c1 = Some p" using assms(3) by simp
  have a: "addDPack safeDump c e = writeToFile safeDump None ?c1"
    using assms(1,5) f by (simp add: addDPack_def dpacks_array_def)
  note w = writeToFile_path [OF p1 assms(4), of safeDump]
  let ?c1' = "?c1\<lparr>files := (files ?c1)(p \<mapsto> safeDump (canonical ?c1)),
             emitted := emitted ?c1 @ [''wrote-config'']\<rparr>"
  have r: "filter_dpacks k (ds @ [e]) = Inr ds"
    using f assms(5) by (rule find_dpack_append_absent)
  let ?c2 = "?c1'\<lparr>canonical := (canonical ?c1')\<lparr>dpacks := Some (Many ds)\<rparr>\<rparr>"
  have p2: "configPath ?c2 = Some p" using assms(3) by simp
  have b: "removeDPack safeDump ?c1' k = writeToFile safeDump None ?c2"
    using r by (simp add: removeDPack_def dpacks_array_def)
  note w2 = writeToFile_path [OF p2 assms(4), of safeDump]
  show ?thesis
    unfolding a w b [unfolded w2]
    apply (intro exI conjI)
       apply (rule refl)
      apply simp
     apply (rule b [unfolded w2])
    apply simp
    done
qed

theorem add_then_remove_witness:
  "dpacks (canonical (config_of (doc_of [site_a]))) = Some (Many [site_a]) \<and>
   list_all (\<lambda>d. isDWebUrl (url d)) [site_a] \<and>
   configPath (config_of (doc_of [site_a])) = Some ''forever.yml'' \<and>
   getDPackKey (url site_b) = Inr key_b \<and>
   getDPackKey (url site_a) \<noteq> Inr key_b \<and>
   (\<exists>c1 c2. addDPack dump0 (config_of (doc_of [site_a])) site_b = Inr c1 \<and>
           dpacks (canonical c1) = Some (Many [site_a, site_b]) \<and>
           removeDPack dump0 c1 key_b = Inr c2 \<and>
           dpacks (canonical c2) = Some (Many [site_a]))"
proof -
  let ?c = "config_of (doc_of [site_a])"
  have h1: "dpacks (canonical ?c) = Some (Many [site_a])"
    and h3: "configPath ?c = Some ''forever.yml''"
    by (simp_all add: config_of_def doc_of_def)
  have h2: "list_all (\<lambda>d. isDWebUrl (url d)) [site_a]" by simp
  have h4: "''forever.yml'' \<noteq> []" by simp
  have h5: "getDPackKey (url site_b) = Inr key_b" by (simp add: site_b_def)
  have h6: "\<forall>d\<in>set [site_a]. getDPackKey (url d) \<noteq> Inr key_b" by (simp add: site_a_def)
  show ?thesis
    using h1 h2 h3 h5 h6 add_then_remove [OF h1 h2 h3 h4 h5 h6, of dump0]
    by simp
qed

text \<open>
  Against C6 as stated: when a stored entry already has the key, \<^verbatim>\<open>addDPack\<close> adds
  nothing and \<^verbatim>\<open>removeDPack\<close> then deletes the stored entry.
\<close>

theorem add_then_remove_counterexample:
  "addDPack dump0 (config_of (doc_of [site_a])) \<lparr>url = url_a, name = Some ''again'', otherDomains = None\<rparr>
     = Inr (config_of (doc_of [site_a])) \<and>
   stored_dpacks (removeDPack dump0 (config_of (doc_of [site_a])) key_a) = Inr [] \<and>
   stored_dpacks (Inr (config_of (doc_of [site_a]))) = Inr [site_a]"
  by (simp add: stored_dpacks_def addDPack_def removeDPack_def dpacks_array_def config_of_def
      doc_of_def site_a_def writeToFile_def or_path_def)

section \<open>Properties of the getters\<close>

text \<open>
  Claim C9, as the code has it. For the empty canonical document, \<^verbatim>\<open>directory\<close> is
  \<^verbatim>\<open>untildify\<close> of the home directory joined with \<^verbatim>\<open>.forever\<close>, \<^verbatim>\<open>ports\<close> is
  \<^verbatim>\<open>{http: 80, https: 443}\<close>, and \<^verbatim>\<open>hostnames\<close> is \<^verbatim>\<open>[undefined]\<close> when
  \<^verbatim>\<open>NODE_ENV\<close> is \<^verbatim>\<open>debug\<close>, \<^verbatim>\<open>staging\<close> or \<^verbatim>\<open>test\<close>, and the one-element
  list of the host's name otherwise.
\<close>

theorem empty_config:
  "directory_get P empty_doc = Inr (untildify P (path_join P (os_homedir P) ''.forever'')) \<and>
   ports_get empty_doc = Inr (JObj [(''http'', JNum 80), (''https'', JNum 443)], empty_doc) \<and>
   hostnames_get P empty_doc =
     Inr [if IS_DEBUG P then JUndefined else JStr (os_hostname P)]"
  by (simp add: directory_get_def ports_get_def hostnames_get_def empty_doc_def js_get_def
      js_or_def DEFAULT_CONFIG_DIRECTORY_def default_ports_def obj_get_def domain_get_def
      allVhosts_def sites_get_def)

theorem empty_config_witness:
  "directory_get (platform0 (Some ''test'')) empty_doc = Inr ''/home/bob/.forever'' \<and>
   ports_get empty_doc = Inr (JObj [(''http'', JNum 80), (''https'', JNum 443)], empty_doc) \<and>
   hostnames_get (platform0 (Some ''test'')) empty_doc = Inr [JUndefined]"
  using empty_config [of "platform0 (Some ''test'')"]
  by (simp add: platform0_def IS_DEBUG_def)

text \<open>
  Against C9 as stated: outside of the debug modes the list holds the host's name, not
  \<^verbatim>\<open>undefined\<close>.
\<close>

theorem empty_config_counterexample:
  "hostnames_get (platform0 None) empty_doc = Inr [JStr ''box.local''] \<and>
   hostnames_get (platform0 (Some ''production'')) empty_doc = Inr [JStr ''box.local''] \<and>
   hostnames_get (platform0 (Some ''test'')) empty_doc = Inr [JUndefined]"
  by (simp add: hostnames_get_def empty_doc_def js_get_def platform0_def IS_DEBUG_def
      domain_get_def allVhosts_def sites_get_def)

section \<open>Properties of the HTTP mirror\<close>

lemma show_nat_digits [simp]: "show_nat 20 = ''20''" "show_nat 404 = ''404''" "show_nat 500 = ''500''"
   "show_nat 10 = ''10''" "show_nat 0 = ''0''" "show_nat 9 = ''9''"
  by (simp_all add: show_nat.simps digit_char_def)

lemma no_redirect_of_file:
  assumes "lookup_entry A m p = Some e" "\<not> isDirectory e"
  shows "\<not> (\<not> endsWith_slash p \<and> (case tryStat A m None p of Some e \<Rightarrow> isDirectory e | None \<Rightarrow> False))"
  using assms by (auto simp: lookup_entry_def tryStat_def split: option.splits if_splits)

text \<open>
  Claim C8. When the lookup resolves to a file, the request (\<^verbatim>\<open>GET\<close> or \<^verbatim>\<open>HEAD\<close>)
  carries a \<^verbatim>\<open>Range\<close> header and the parser returns byte ranges for it, the handler
  uses the first range only: it sets \<^verbatim>\<open>Content-Range\<close> to
  \<^verbatim>\<open>bytes <start>-<end>/<size>\<close> and \<^verbatim>\<open>Content-Length\<close> to \<^verbatim>\<open>end - start + 1\<close>,
  reads that range, and answers a \<^verbatim>\<open>GET\<close> whose data arrives with status 206. The
  witness is the example: \<^verbatim>\<open>bytes=0-9\<close> on a file of 20 bytes gives 206,
  \<^verbatim>\<open>Content-Range: bytes 0-9/20\<close> and \<^verbatim>\<open>Content-Length: 10\<close>.
\<close>

theorem range_request:
  assumes "req_method req = ''GET'' \<or> req_method req = ''HEAD''"
    and "lookup_entry A (readManifest A) (req_path req) = Some e" and "\<not> isDirectory e"
    and "req_range req = Some h" and "h \<noteq> []"
    and "parseRange A (size e) h = Ranges ''bytes'' ((s, t) # rest)"
  shows "\<exists>r. createHttpMirror A req = Inr r \<and>
           headers r ''Accept-Ranges'' = Some ''bytes'' \<and>
           headers r ''Content-Range'' =
             Some (''bytes '' @ show_int s @ ''-'' @ show_int t @ ''/'' @ show_nat (size e)) \<and>
           headers r ''Content-Length'' = Some (show_int (t - s + 1)) \<and>
           (req_method req = ''GET'' \<and>
            (\<exists>mt. createReadStream A (entry_path e) (FirstRange s t) = Identified mt) \<longrightarrow>
              status r = 206 \<and> body r = Piped)"
proof -
  let ?csp = "case readManifest A of None \<Rightarrow> [] | Some mf \<Rightarrow> content_security_policy mf"
  note nr = no_redirect_of_file [OF assms(2,3)]
  have c: "createHttpMirror A req = serve_file A req ?csp e"
    using assms(1,2,3) nr by (auto simp: createHttpMirror_def Let_def)
  have hr: "handle_range A req e fresh_response =
      Inr (206,
           res_set ''Content-Length'' (show_int (t - s + 1))
             (res_set ''Content-Range''
                (''bytes '' @ show_int s @ ''-'' @ show_int t @ ''/'' @ show_nat (size e))
                (res_set ''Accept-Ranges'' ''bytes'' fresh_response)),
           FirstRange s t)"
    using assms(4,5,6) by (simp add: handle_range_def Let_def)
  show ?thesis
    unfolding c serve_file_def hr
    by (cases "createReadStream A (entry_path e) (FirstRange s t)")
       (auto simp: stream_response_def res_set_def respondError_def res_end_def Let_def)
qed

theorem range_request_witness:
  "lookup_entry (archive_of (Identified ''text/plain'')) None ''/file.bin''
     = Some \<lparr>isDirectory = False, size = 20, entry_path = ''/file.bin''\<rparr> \<and>
   parseRange (archive_of (Identified ''text/plain'')) 20 ''bytes=0-9'' = Ranges ''bytes'' [(0, 9)] \<and>
   (\<exists>r. createHttpMirror (archive_of (Identified ''text/plain''))
           \<lparr>req_method = ''GET'', req_path = ''/file.bin'', req_range = Some ''bytes=0-9''\<rparr> = Inr r \<and>
        status r = 206 \<and> headers r ''Content-Range'' = Some ''bytes 0-9/20'' \<and>
        headers r ''Content-Length'' = Some ''10'')"
proof -
  let ?A = "archive_of (Identified ''text/plain'')"
  let ?req = "\<lparr>req_method = ''GET'', req_path = ''/file.bin'', req_range = Some ''bytes=0-9''\<rparr>"
  let ?e = "\<lparr>isDirectory = False, size = 20, entry_path = ''/file.bin''\<rparr>"
  have h1: "req_method ?req = ''GET'' \<or> req_method ?req = ''HEAD''" by simp
  have l: "lookup_entry ?A None ''/file.bin'' = Some ?e"
    by (simp add: lookup_entry_def tryStat_def archive_of_def stat0_def endsWith_slash_def)
  have h2: "lookup_entry ?A (readManifest ?A) (req_path ?req) = Some ?e"
    using l by (simp add: archive_of_def)
  have h3: "\<not> isDirectory ?e" by simp
  have h4: "req_range ?req = Some ''bytes=0-9''" by simp
  have h5: "''bytes=0-9'' \<noteq> []" by simp
  have p: "parseRange ?A 20 ''bytes=0-9'' = Ranges ''bytes'' [(0, 9)]"
    by (simp add: archive_of_def parse0_def)
  have h6: "parseRange ?A (size ?e) ''bytes=0-9'' = Ranges ''bytes'' ((0, 9) # [])"
    using p by simp
  have ev: "createReadStream ?A (entry_path ?e) (FirstRange 0 9) = Identified ''text/plain''"
    by (simp add: archive_of_def)
  show ?thesis
    using l p ev range_request [OF h1 h2 h3 h4 h5 h6]
    by (auto simp: show_int_def)
qed

lemma handle_range_error:
  "handle_range A req e r = Inl err \<Longrightarrow>
   err = TypeError \<and> (\<exists>n h. parseRange A n h = Ranges ''bytes'' [])"
  by (auto simp: handle_range_def Let_def
      split: option.splits if_splits range_result.splits list.splits)

lemma serve_file_head:
  assumes "req_method req = ''HEAD''"
  shows "case serve_file A req csp e of
           Inl err \<Rightarrow> err = TypeError \<and> (\<exists>n h. parseRange A n h = Ranges ''bytes'' [])
         | Inr r \<Rightarrow> body r = NoBody \<and> status r \<in> set [200, 204, 500]"
proof (cases "handle_range A req e fresh_response")
  case (Inl err)
  then show ?thesis by (auto simp: serve_file_def dest: handle_range_error)
next
  case (Inr x)
  obtain sc r rng where "x = (sc, r, rng)" by (cases x)
  with Inr show ?thesis
    using assms
    by (cases "createReadStream A (entry_path e) rng")
       (simp_all add: serve_file_def stream_response_def respondError_def res_end_def
          res_set_def Let_def)
qed

text \<open>
  Claim C2. The response to a \<^verbatim>\<open>HEAD\<close> request has an empty body in every branch of
  the handler: the redirect of a directory (303), the directory listing and the file
  whose type was identified (204), the empty file (200), the path that does not resolve
  (404) and the read that fails (500); the rejection of a method (405) is not reached
  by \<^verbatim>\<open>HEAD\<close>. In the last two branches \<^verbatim>\<open>respondError\<close> gives the text of the error
  to \<^verbatim>\<open>res.end\<close>, and the response of a \<^verbatim>\<open>HEAD\<close> request discards it. The handler
  produces no response only by the TypeError of a byte range result without ranges,
  which the parser would have to return.
\<close>

theorem head_no_body:
  assumes "req_method req = ''HEAD''"
  shows "case createHttpMirror A req of
           Inl err \<Rightarrow> err = TypeError \<and> (\<exists>n h. parseRange A n h = Ranges ''bytes'' [])
         | Inr r \<Rightarrow> body r = NoBody \<and> status r \<in> set [200, 204, 303, 404, 500]"
proof -
  have s: "case serve_file A req csp e of
           Inl err \<Rightarrow> err = TypeError \<and> (\<exists>n h. parseRange A n h = Ranges ''bytes'' [])
         | Inr r \<Rightarrow> body r = NoBody \<and> status r \<in> set [200, 204, 303, 404, 500]" for csp e
    using serve_file_head [OF assms, of A csp e] by (auto split: sum.splits)
  show ?thesis
    unfolding createHttpMirror_def Let_def
    using assms s
    by (auto simp: respondError_def res_end_def res_set_def fresh_response_def
        split: option.splits)
qed

theorem head_no_body_witness:
  "map_sum id (\<lambda>r. (status r, body r))
     (createHttpMirror (archive_of EndedEmpty)
        \<lparr>req_method = ''HEAD'', req_path = ''/missing'', req_range = None\<rparr>) = Inr (404, NoBody) \<and>
   map_sum id (\<lambda>r. (status r, body r))
     (createHttpMirror (archive_of ReadFailed)
        \<lparr>req_method = ''HEAD'', req_path = ''/file.bin'', req_range = None\<rparr>) = Inr (500, NoBody) \<and>
   map_sum id (\<lambda>r. (status r, body r))
     (createHttpMirror (archive_of (Identified ''text/plain''))
        \<lparr>req_method = ''HEAD'', req_path = ''/file.bin'', req_range = None\<rparr>) = Inr (204, NoBody) \<and>
   map_sum id (\<lambda>r. (status r, body r))
     (createHttpMirror (archive_of EndedEmpty)
        \<lparr>req_method = ''HEAD'', req_path = ''/file.bin'', req_range = None\<rparr>) = Inr (200, NoBody) \<and>
   map_sum id (\<lambda>r. (status r, body r))
     (createHttpMirror archive_dir
        \<lparr>req_method = ''HEAD'', req_path = ''/docs/'', req_range = None\<rparr>) = Inr (204, NoBody) \<and>
   map_sum id (\<lambda>r. (status r, body r))
     (createHttpMirror archive_dir
        \<lparr>req_method = ''HEAD'', req_path = ''/docs'', req_range = None\<rparr>) = Inr (303, NoBody)"
proof -
  have h: "req_method \<lparr>req_method = ''HEAD'', req_path = p, req_range = None\<rparr> = ''HEAD''" for p
    by simp
  show ?thesis
    using head_no_body [OF h, of "archive_of EndedEmpty" "''/missing''"]
      head_no_body [OF h, of "archive_of ReadFailed" "''/file.bin''"]
      head_no_body [OF h, of "archive_of (Identified ''text/plain'')" "''/file.bin''"]
      head_no_body [OF h, of "archive_of EndedEmpty" "''/file.bin''"]
      head_no_body [OF h, of archive_dir "''/docs/''"]
      head_no_body [OF h, of archive_dir "''/docs''"]
    by (simp add: createHttpMirror_def lookup_entry_def tryStat_def archive_of_def archive_dir_def
        stat0_def stat1_def endsWith_slash_def respondError_def res_end_def fresh_response_def
        serve_file_def handle_range_def stream_response_def res_set_def Let_def)
qed

text \<open>The same two errors answer a \<^verbatim>\<open>GET\<close> request with their text.\<close>

lemma get_error_body:
  "map_sum id (\<lambda>r. (status r, body r))
     (createHttpMirror (archive_of EndedEmpty)
        \<lparr>req_method = ''GET'', req_path = ''/missing'', req_range = None\<rparr>)
     = Inr (404, Text ''404 File Not Found'') \<and>
   map_sum id (\<lambda>r. (status r, body r))
     (createHttpMirror (archive_of ReadFailed)
        \<lparr>req_method = ''GET'', req_path = ''/file.bin'', req_range = None\<rparr>)
     = Inr (500, Text ''500 Failed to read file'')"
  by (simp add: createHttpMirror_def lookup_entry_def tryStat_def archive_of_def stat0_def
      endsWith_slash_def respondError_def res_end_def fresh_response_def serve_file_def
      handle_range_def stream_response_def res_set_def Let_def)

section \<open>Properties of validation and the round trip\<close>

lemma typeof_skip [simp]: "typeof (skip_undefined v) = typeof v"
  by (cases v) simp_all

lemma truthy_skip [simp]: "truthy (skip_undefined v) = truthy v"
  by (cases v) simp_all

lemma skip_eq_bool [simp]: "skip_undefined v = JBool b \<longleftrightarrow> v = JBool b"
  by (cases v) auto

lemma object_or_false_skip [simp]: "object_or_false (skip_undefined v) = object_or_false v"
  by (simp add: object_or_false_def)

lemma has_key_skip: "has_key k (skip_undefined v) \<Longrightarrow> has_key k v"
  by (cases v) (force simp: has_key_def)+

lemma obj_get_skip:
  "obj_get kvs k \<noteq> JUndefined \<Longrightarrow>
   obj_get (map (\<lambda>(k, v). (k, skip_undefined v)) (filter (\<lambda>(k, v). v \<noteq> JUndefined) kvs)) k
     = skip_undefined (obj_get kvs k)"
  by (induction kvs) (auto simp: obj_get_def)

lemma get_prop_skip:
  "get_prop v k \<noteq> JUndefined \<Longrightarrow> get_prop (skip_undefined v) k = skip_undefined (get_prop v k)"
  by (cases v) (auto simp: get_prop_def obj_get_skip)

lemma get_prop_skip_typed:
  "typeof (get_prop v k) = t \<Longrightarrow> t \<noteq> ''undefined'' \<Longrightarrow> typeof (get_prop (skip_undefined v) k) = t"
  using get_prop_skip [of v k] by (cases "get_prop v k") auto

lemma get_prop_skip_true:
  "get_prop v k = JBool True \<Longrightarrow> get_prop (skip_undefined v) k = JBool True"
  using get_prop_skip [of v k] by simp

lemma run_checks_cons [simp]:
  "run_checks (guarded g (check a m k) # cs) = Inr () \<longleftrightarrow> (g \<longrightarrow> a) \<and> run_checks cs = Inr ()"
  by (auto simp: guarded_def check_def)

lemma run_checks_check [simp]:
  "run_checks (check a m k # cs) = Inr () \<longleftrightarrow> a \<and> run_checks cs = Inr ()"
  by (auto simp: check_def)

lemma run_checks_append:
  "run_checks (xs @ ys) = Inr () \<longleftrightarrow> run_checks xs = Inr () \<and> run_checks ys = Inr ()"
  by (induction xs) (auto split: sum.splits)

lemma run_checks_map:
  "run_checks (map (\<lambda>v. check (P v) m k) vs) = Inr () \<longleftrightarrow> list_all P vs"
  by (induction vs) (auto simp: check_def)

lemma run_checks_unit: "run_checks cs = Inr u \<longleftrightarrow> run_checks cs = Inr ()"
  by simp

lemma skip_key_cases:
  "skip_key f = None \<longleftrightarrow> f = None \<or> f = Some JUndefined"
  "skip_key f = Some w \<longleftrightarrow> (\<exists>v. f = Some v \<and> v \<noteq> JUndefined \<and> w = skip_undefined v)"
  by (auto simp: skip_key_def split: option.splits)

lemma js_get_skip_key:
  "js_get (skip_key f) = skip_undefined (js_get f)"
  by (auto simp: skip_key_def js_get_def split: option.splits)

lemma run_checks_mono:
  "list_all2 (\<lambda>x y. x = Inr () \<longrightarrow> y = Inr ()) xs ys \<Longrightarrow>
   run_checks xs = Inr () \<Longrightarrow> run_checks ys = Inr ()"
  by (induction xs ys rule: list_all2_induct) (auto split: sum.splits)

lemma guarded_check [simp]:
  "guarded g (check a m k) = Inr () \<longleftrightarrow> (g \<longrightarrow> a)"
  by (auto simp: guarded_def check_def)

lemma skip_key_set: "skip_key f = Some w \<Longrightarrow> \<exists>v. f = Some v"
  by (auto simp: skip_key_def split: option.splits if_splits)

lemma check_settings_skip:
  assumes "check_settings c = Inr ()"
  shows "check_settings (skip_invalid c) = Inr ()"
proof -
  note [simp] = js_get_skip_key
  show ?thesis
    using assms unfolding check_settings_def
    apply (rule run_checks_mono [rotated])
    apply (simp del: skip_undefined.simps add: skip_invalid_def)
    apply (intro conjI impI)
    apply (auto dest!: skip_key_set has_key_skip intro: get_prop_skip_typed get_prop_skip_true)
    done
qed

lemma js_get_simps [simp]: "js_get (Some v) = v" "js_get None = JUndefined"
  by (simp_all add: js_get_def)

lemma typeof_string: "typeof v = ''string'' \<longleftrightarrow> (\<exists>s. v = JStr s)"
  by (cases v) auto

lemma case_run_checks:
  "(case run_checks cs of Inl e \<Rightarrow> Inl e | Inr u \<Rightarrow> Inr x) = Inr y \<longleftrightarrow> run_checks cs = Inr () \<and> x = y"
  by (cases "run_checks cs") auto

lemma validateDPackCfg_ok:
  "validateDPackCfg isDomain d = Inr d' \<longleftrightarrow>
     isDWebUrl (url d) \<and> name d \<noteq> None \<and>
     (truthy (if \<not> truthy (js_get (otherDomains d)) \<or> isArray (js_get (otherDomains d))
              then js_get (otherDomains d) else JArr [js_get (otherDomains d)]) \<longrightarrow>
        list_all isDomain
          (concat_arg (if \<not> truthy (js_get (otherDomains d)) \<or> isArray (js_get (otherDomains d))
              then js_get (otherDomains d) else JArr [js_get (otherDomains d)]))) \<and>
     d' = d\<lparr>otherDomains := Some (if \<not> truthy (js_get (otherDomains d)) \<or> isArray (js_get (otherDomains d))
              then js_get (otherDomains d) else JArr [js_get (otherDomains d)])\<rparr>"
proof -
  define od' where "od' = (if \<not> truthy (js_get (otherDomains d)) \<or> isArray (js_get (otherDomains d))
              then js_get (otherDomains d) else JArr [js_get (otherDomains d)])"
  have "run_checks
           ([check (isDWebUrl (url d))
               ''dpacks.*.url must be a valid dpack url, see https://docs.dpack.io/forever#dpacksurl''
               (Some ''invalidUrl''),
             check (name d \<noteq> None)
               ''dpacks.*.name must be specified, see https://docs.dpack.io/forever#dpacksname''
               (Some ''invalidName'')]
            @ (if truthy od' then
                 map (\<lambda>domain. check (isDomain domain)
                        (''dpacks.*.otherDomains.* must be domain names, ''
                           @ ''see https://docs.dpack.io/forever#dpacksotherdomains'')
                        (Some ''invalidDomain''))
                   (concat_arg od')
               else [])) = Inr () \<longleftrightarrow>
        isDWebUrl (url d) \<and> name d \<noteq> None \<and> (truthy od' \<longrightarrow> list_all isDomain (concat_arg od'))"
    unfolding run_checks_append
    by (cases "truthy od'") (simp_all only: run_checks_check run_checks_map run_checks.simps(1) if_True if_False simp_thms conj_assoc)
  then show ?thesis
    unfolding validateDPackCfg_def Let_def od'_def [symmetric] case_run_checks
    by auto
qed

lemma validateDPackCfg_skip:
  assumes cl: "dump_keeps (js_get (otherDomains d))"
    and v: "validateDPackCfg isDomain d = Inr d'"
  shows "\<exists>d''. validateDPackCfg isDomain (d\<lparr>otherDomains := skip_key (otherDomains d)\<rparr>) = Inr d'' \<and>
           same_view d d''"
proof -
  let ?od = "js_get (otherDomains d)"
  let ?od' = "if \<not> truthy ?od \<or> isArray ?od then ?od else JArr [?od]"
  have g: "js_get (otherDomains (d\<lparr>otherDomains := skip_key (otherDomains d)\<rparr>)) = ?od"
    using cl by (simp add: js_get_skip_key dump_keeps_def)
  have "validateDPackCfg isDomain (d\<lparr>otherDomains := skip_key (otherDomains d)\<rparr>)
      = Inr (d\<lparr>otherDomains := Some ?od'\<rparr>)"
    using v unfolding validateDPackCfg_ok g by simp
  moreover have "same_view d (d\<lparr>otherDomains := Some ?od'\<rparr>)"
    by (cases ?od) (auto simp: same_view_def js_or_def isArray_def concat_arg_def)
  ultimately show ?thesis by blast
qed

lemma validate_each_dpacks_skip:
  "list_all (\<lambda>d. dump_keeps (js_get (otherDomains d))) ds \<Longrightarrow>
   validate_each (validateDPackCfg isDomain) ds = Inr ds' \<Longrightarrow>
    \<exists>ds''. validate_each (validateDPackCfg isDomain)
             (map (\<lambda>d. d\<lparr>otherDomains := skip_key (otherDomains d)\<rparr>) ds) = Inr ds'' \<and>
          list_all2 same_view ds ds''"
proof (induction ds arbitrary: ds')
  case Nil
  then show ?case by simp
next
  case (Cons d ds)
  from Cons.prems obtain d' ds1 where d: "validateDPackCfg isDomain d = Inr d'"
    and ds: "validate_each (validateDPackCfg isDomain) ds = Inr ds1"
    by (auto split: sum.splits)
  from Cons.prems have cl: "dump_keeps (js_get (otherDomains d))"
    and cls: "list_all (\<lambda>d. dump_keeps (js_get (otherDomains d))) ds" by simp_all
  from validateDPackCfg_skip [OF cl d] obtain d'' where
    "validateDPackCfg isDomain (d\<lparr>otherDomains := skip_key (otherDomains d)\<rparr>) = Inr d''"
    "same_view d d''" by blast
  moreover from Cons.IH [OF cls ds] obtain ds'' where
    "validate_each (validateDPackCfg isDomain)
       (map (\<lambda>d. d\<lparr>otherDomains := skip_key (otherDomains d)\<rparr>) ds) = Inr ds''"
    "list_all2 same_view ds ds''" by blast
  ultimately show ?case by simp
qed

lemma validate_each_proxies:
  "validate_each (validate_proxy isDomain isOrigin) ps = Inr ps' \<Longrightarrow> ps' = ps"
  by (induction ps arbitrary: ps') (auto simp: validate_proxy_def split: sum.splits)

lemma validate_each_redirects:
  "validate_each (validate_redirect isDomain isOrigin) rs = Inr rs' \<Longrightarrow> map rfrom rs' = map rfrom rs"
  by (induction rs arbitrary: rs') (auto simp: validate_redirect_def split: sum.splits)

lemma derive_dpack_view:
  assumes "same_view d d'" "domain_get P c' = domain_get P c"
  shows "derive_vhost P c' (DPackVhost d') = derive_vhost P c (DPackVhost d)"
  using assms
  by (simp add: derive_vhost_def same_view_def vhost_id_def vhost_vhostType_def
      vhost_hostnames_def dpack_id_def dpack_dPackKey_def dpack_vhostType_def dpack_hostnames_def)

lemma derive_dpacks_view:
  assumes "list_all2 same_view ds ds'" "domain_get P c' = domain_get P c"
  shows "map (derive_vhost P c') (map DPackVhost ds') = map (derive_vhost P c) (map DPackVhost ds)"
  using assms(1)
  by (induction ds ds' rule: list_all2_induct) (simp_all add: derive_dpack_view [OF _ assms(2)])

lemma derive_proxies:
  "map (derive_vhost P c') (map ProxyVhost ps) = map (derive_vhost P c) (map ProxyVhost ps)"
  by (simp add: derive_vhost_def vhost_hostnames_def)

lemma derive_redirects:
  assumes "map rfrom rs' = map rfrom rs"
  shows "map (derive_vhost P c') (map RedirectVhost rs') = map (derive_vhost P c) (map RedirectVhost rs)"
proof -
  have "map (derive_vhost P c') (map RedirectVhost rs') =
        map (\<lambda>f. \<lparr>dv_id = Inr (''redirect-'' @ f), dv_vhostType = ''redirect'',
                    dv_hostnames = [JStr f], dv_dPackKey = None\<rparr>) (map rfrom rs')"
    by (simp add: derive_vhost_def vhost_id_def vhost_vhostType_def vhost_hostnames_def
        redirect_id_def redirect_vhostType_def redirect_hostnames_def comp_def)
  also have "\<dots> = map (derive_vhost P c) (map RedirectVhost rs)"
    unfolding assms
    by (simp add: derive_vhost_def vhost_id_def vhost_vhostType_def vhost_hostnames_def
        redirect_id_def redirect_vhostType_def redirect_hostnames_def comp_def)
  finally show ?thesis .
qed

lemma validate_ok:
  "validate isDomain isOrigin c = Inr c' \<longleftrightarrow>
     check_settings c = Inr () \<and>
     (\<exists>ds ps rs. validate_sites (validateDPackCfg isDomain) (dpacks c) = Inr ds \<and>
        validate_sites (validate_proxy isDomain isOrigin) (proxies c) = Inr ps \<and>
        validate_sites (validate_redirect isDomain isOrigin) (redirects c) = Inr rs \<and>
        c' = c\<lparr>dpacks := ds, proxies := ps, redirects := rs\<rparr>)"
  unfolding validate_def by (auto split: sum.splits)

lemma run_checks_member: "run_checks cs = Inr () \<Longrightarrow> x \<in> set cs \<Longrightarrow> x = Inr ()"
  by (induction cs) (auto split: sum.splits)

lemma valid_domain:
  assumes "check_settings c = Inr ()"
  shows "skip_key (domain c) = domain c"
proof -
  have "guarded (domain c \<noteq> None)
        (check (typeof (js_get (domain c)) = ''string'')
           ''domain must be a string, see https://docs.dpack.io/forever#domain'' None) = Inr ()"
    using assms unfolding check_settings_def
    by (rule run_checks_member) simp
  then have "domain c \<noteq> None \<longrightarrow> typeof (js_get (domain c)) = ''string''"
    by (simp only: guarded_check)
  then show ?thesis
    by (cases "domain c") (auto simp: skip_key_def typeof_string)
qed

lemma dpacks_part:
  assumes cl: "case x of None \<Rightarrow> True
      | Some (One d) \<Rightarrow> dump_keeps (js_get (otherDomains d))
      | Some (Many ds) \<Rightarrow> list_all (\<lambda>d. dump_keeps (js_get (otherDomains d))) ds"
    and "is_array_or_unset x"
    and "validate_sites (validateDPackCfg isDomain) x = Inr ds"
  shows "\<exists>ds' xs ys.
           validate_sites (validateDPackCfg isDomain)
             (skip_sites (\<lambda>d. d\<lparr>otherDomains := skip_key (otherDomains d)\<rparr>) x) = Inr ds' \<and>
           sites_get x = Inr xs \<and> sites_get ds' = Inr ys \<and> list_all2 same_view xs ys"
proof (cases x)
  case None
  then show ?thesis by (simp add: validate_sites_def skip_sites_def sites_get_def)
next
  case (Some y)
  with assms(2) obtain xs where x: "x = Some (Many xs)"
    by (cases y) (auto simp: is_array_or_unset_def)
  with assms(3) obtain zs where "validate_each (validateDPackCfg isDomain) xs = Inr zs"
    by (auto simp: validate_sites_def split: sum.splits)
  moreover from cl x have "list_all (\<lambda>d. dump_keeps (js_get (otherDomains d))) xs" by simp
  ultimately obtain ys where
    "validate_each (validateDPackCfg isDomain)
       (map (\<lambda>d. d\<lparr>otherDomains := skip_key (otherDomains d)\<rparr>) xs) = Inr ys"
    "list_all2 same_view xs ys" using validate_each_dpacks_skip by blast
  with x show ?thesis by (simp add: validate_sites_def skip_sites_def sites_get_def)
qed

lemma proxies_part:
  assumes "is_array_or_unset x"
    and "validate_sites (validate_proxy isDomain isOrigin) x = Inr ps"
  shows "\<exists>xs. sites_get x = Inr xs \<and> sites_get ps = Inr xs"
proof (cases x)
  case None
  with assms(2) show ?thesis by (simp add: validate_sites_def sites_get_def)
next
  case (Some y)
  with assms(1) obtain xs where x: "x = Some (Many xs)"
    by (cases y) (auto simp: is_array_or_unset_def)
  with assms(2) show ?thesis
    by (auto simp: validate_sites_def sites_get_def split: sum.splits dest: validate_each_proxies)
qed

lemma redirects_part:
  assumes "is_array_or_unset x"
    and "validate_sites (validate_redirect isDomain isOrigin) x = Inr rs"
  shows "\<exists>xs ys. sites_get x = Inr xs \<and> sites_get rs = Inr ys \<and> map rfrom ys = map rfrom xs"
proof (cases x)
  case None
  with assms(2) show ?thesis by (simp add: validate_sites_def sites_get_def)
next
  case (Some y)
  with assms(1) obtain xs where x: "x = Some (Many xs)"
    by (cases y) (auto simp: is_array_or_unset_def)
  with assms(2) show ?thesis
    by (auto simp: validate_sites_def sites_get_def split: sum.splits dest: validate_each_redirects)
qed

lemma derive_arrays:
  "sites_get (dpacks c) = Inr ds \<Longrightarrow> sites_get (proxies c) = Inr ps \<Longrightarrow>
   sites_get (redirects c) = Inr rs \<Longrightarrow>
   derive P c = Inr (map (derive_vhost P c) (map DPackVhost ds) @
                     map (derive_vhost P c) (map ProxyVhost ps) @
                     map (derive_vhost P c) (map RedirectVhost rs))"
  by (simp add: derive_def allVhosts_def)

lemma validate_skip:
  assumes cl: "domains_writable c"
    and v: "validate isDomain isOrigin c = Inr c'"
    and arr: "collections_are_arrays c"
  shows "\<exists>c''. validate isDomain isOrigin (skip_invalid c) = Inr c'' \<and> derive P c'' = derive P c"
proof -
  from v obtain ds ps rs where cs: "check_settings c = Inr ()"
    and vd: "validate_sites (validateDPackCfg isDomain) (dpacks c) = Inr ds"
    and vp: "validate_sites (validate_proxy isDomain isOrigin) (proxies c) = Inr ps"
    and vr: "validate_sites (validate_redirect isDomain isOrigin) (redirects c) = Inr rs"
    unfolding validate_ok by blast
  from arr have a: "is_array_or_unset (dpacks c)" "is_array_or_unset (proxies c)"
    "is_array_or_unset (redirects c)" by (simp_all add: collections_are_arrays_def)
  from cl have cl': "case dpacks c of None \<Rightarrow> True
      | Some (One d) \<Rightarrow> dump_keeps (js_get (otherDomains d))
      | Some (Many ds) \<Rightarrow> list_all (\<lambda>d. dump_keeps (js_get (otherDomains d))) ds"
    by (simp add: domains_writable_def)
  from dpacks_part [OF cl' a(1) vd] obtain ds' xs ys where
    d1: "validate_sites (validateDPackCfg isDomain)
          (skip_sites (\<lambda>d. d\<lparr>otherDomains := skip_key (otherDomains d)\<rparr>) (dpacks c)) = Inr ds'"
    and d2: "sites_get (dpacks c) = Inr xs" and d3: "sites_get ds' = Inr ys"
    and d4: "list_all2 same_view xs ys" by blast
  from proxies_part [OF a(2) vp] obtain pxs where
    p1: "sites_get (proxies c) = Inr pxs" and p2: "sites_get ps = Inr pxs" by blast
  from redirects_part [OF a(3) vr] obtain rxs rys where
    r1: "sites_get (redirects c) = Inr rxs" and r2: "sites_get rs = Inr rys"
    and r3: "map rfrom rys = map rfrom rxs" by blast
  let ?c = "(skip_invalid c)\<lparr>dpacks := ds', proxies := ps, redirects := rs\<rparr>"
  have s: "dpacks (skip_invalid c) = skip_sites (\<lambda>d. d\<lparr>otherDomains := skip_key (otherDomains d)\<rparr>) (dpacks c)"
    "proxies (skip_invalid c) = proxies c" "redirects (skip_invalid c) = redirects c"
    "domain (skip_invalid c) = skip_key (domain c)"
    by (simp_all add: skip_invalid_def)
  have "validate isDomain isOrigin (skip_invalid c) = Inr ?c"
    unfolding validate_ok s using check_settings_skip [OF cs] d1 vp vr by blast
  moreover have dom: "domain_get P ?c = domain_get P c"
    using valid_domain [OF cs] by (simp add: domain_get_def s)
  have "derive P ?c = derive P c"
    unfolding derive_arrays [OF d2 p1 r1]
    using derive_arrays [of ?c ys pxs rys P] d3 p2 r2
      derive_dpacks_view [OF d4 dom] derive_proxies [of P ?c pxs c] derive_redirects [OF r3, of P ?c c]
    by simp
  ultimately show ?thesis by blast
qed

lemma validate_doc_full: "validate isDomain0 isOrigin0 doc_full = Inr doc_full"
  by (simp add: validate_def check_settings_def doc_full_def empty_doc_def guarded_def
      validate_sites_def validateDPackCfg_def validate_proxy_def validate_redirect_def
      check_def site_a_def site_b_def isDomain0_def isOrigin0_def isArray_def concat_arg_def
      strip_slash_def isDWebUrl_key Let_def)

lemma derive_doc_full:
  "derive (platform0 (Some ''test'')) doc_full =
     Inr [\<lparr>dv_id = Inr (''dpack-'' @ key_a), dv_vhostType = ''dweb'',
            dv_hostnames = [JStr ''mysite.foo.bar'', JStr ''mysite.com''],
            dv_dPackKey = Some (Inr key_a)\<rparr>,
          \<lparr>dv_id = Inr (''dpack-'' @ key_b), dv_vhostType = ''dweb'',
            dv_hostnames = [JStr ''othersite.foo.bar''],
            dv_dPackKey = Some (Inr key_b)\<rparr>,
          \<lparr>dv_id = Inr ''proxy-myproxy.com'', dv_vhostType = ''proxy'',
            dv_hostnames = [JStr ''myproxy.com''], dv_dPackKey = None\<rparr>,
          \<lparr>dv_id = Inr ''redirect-myredirect.com'', dv_vhostType = ''redirect'',
            dv_hostnames = [JStr ''myredirect.com''], dv_dPackKey = None\<rparr>]"
  by (simp add: derive_def allVhosts_def sites_get_def doc_full_def empty_doc_def derive_vhost_def
      vhost_id_def vhost_vhostType_def vhost_hostnames_def dpack_id_def dpack_dPackKey_def
      dpack_vhostType_def dpack_hostnames_def proxy_id_def proxy_vhostType_def proxy_hostnames_def
      redirect_id_def redirect_vhostType_def redirect_hostnames_def site_a_def site_b_def
      name_string_def domain_get_def platform0_def IS_DEBUG_def js_or_def concat_arg_def)

text \<open>
  Claim C7. Let the canonical document of a configuration pass \<^verbatim>\<open>validate\<close>, hold its
  collections as arrays and its mirrors' \<^verbatim>\<open>otherDomains\<close> as values that have no
  \<^verbatim>\<open>undefined\<close> inside, and let the configuration have a path. Take the YAML library
  by its contract on that document: loading what \<^verbatim>\<open>safeDump\<close> wrote gives the document
  back without the values that are \<^verbatim>\<open>undefined\<close>. Then \<^verbatim>\<open>writeToFile\<close> succeeds, a
  new configuration object made from the written file reads and validates it with
  success, and the vhosts derived from the document it holds (ids, types, hostnames,
  content keys) are those derived from the original document.
\<close>

theorem config_round_trip:
  assumes "validate isDomain isOrigin (canonical s) = Inr c'"
    and "collections_are_arrays (canonical s)"
    and "domains_writable (canonical s)"
    and "configPath s = Some p" and "p \<noteq> []"
    and "safeLoad (safeDump (canonical s)) = Inr (Some (skip_invalid (canonical s)))"
  shows "\<exists>s1 s2. writeToFile safeDump None s = Inr s1 \<and>
           ForeverConfig isDomain isOrigin safeLoad (files s1) (Some p) = Inr s2 \<and>
           derive P (canonical s2) = derive P (canonical s)"
proof -
  from validate_skip [OF assms(3,1,2), of P] obtain c'' where
    v: "validate isDomain isOrigin (skip_invalid (canonical s)) = Inr c''"
    and d: "derive P c'' = derive P (canonical s)" by blast
  let ?s1 = "s\<lparr>files := (files s)(p \<mapsto> safeDump (canonical s)),
             emitted := emitted s @ [''wrote-config'']\<rparr>"
  let ?s2 = "\<lparr>configPath = Some p, canonical = c'', files = files ?s1,
             emitted = [''read-config'']\<rparr>"
  have w: "writeToFile safeDump None s = Inr ?s1"
    using assms(4,5) by (rule writeToFile_path)
  have "ForeverConfig isDomain isOrigin safeLoad (files ?s1) (Some p) = Inr ?s2"
    using assms(5,6) v by (simp add: ForeverConfig_def readFromFile_def or_path_def)
  moreover have "derive P (canonical ?s2) = derive P (canonical s)" using d by simp
  ultimately show ?thesis using w by blast
qed

theorem config_round_trip_witness:
  "validate isDomain0 isOrigin0 (canonical (config_of doc_full)) = Inr doc_full \<and>
   collections_are_arrays (canonical (config_of doc_full)) \<and>
   domains_writable (canonical (config_of doc_full)) \<and>
   configPath (config_of doc_full) = Some ''forever.yml'' \<and>
   safeLoad0 (dump0 (canonical (config_of doc_full)))
     = Inr (Some (skip_invalid (canonical (config_of doc_full)))) \<and>
   (\<exists>s1 s2. writeToFile dump0 None (config_of doc_full) = Inr s1 \<and>
      ForeverConfig isDomain0 isOrigin0 safeLoad0 (files s1) (Some ''forever.yml'') = Inr s2 \<and>
      derive (platform0 (Some ''test'')) (canonical s2) =
        Inr [\<lparr>dv_id = Inr (''dpack-'' @ key_a), dv_vhostType = ''dweb'',
               dv_hostnames = [JStr ''mysite.foo.bar'', JStr ''mysite.com''],
               dv_dPackKey = Some (Inr key_a)\<rparr>,
             \<lparr>dv_id = Inr (''dpack-'' @ key_b), dv_vhostType = ''dweb'',
               dv_hostnames = [JStr ''othersite.foo.bar''],
               dv_dPackKey = Some (Inr key_b)\<rparr>,
             \<lparr>dv_id = Inr ''proxy-myproxy.com'', dv_vhostType = ''proxy'',
               dv_hostnames = [JStr ''myproxy.com''], dv_dPackKey = None\<rparr>,
             \<lparr>dv_id = Inr ''redirect-myredirect.com'', dv_vhostType = ''redirect'',
               dv_hostnames = [JStr ''myredirect.com''], dv_dPackKey = None\<rparr>])"
proof -
  let ?s = "config_of doc_full"
  have c: "canonical ?s = doc_full" by (simp add: config_of_def)
  have h1: "validate isDomain0 isOrigin0 (canonical ?s) = Inr doc_full"
    unfolding c by (rule validate_doc_full)
  have h2: "collections_are_arrays (canonical ?s)"
    unfolding c by (simp add: collections_are_arrays_def is_array_or_unset_def doc_full_def)
  have h3: "domains_writable (canonical ?s)"
    unfolding c
    by (simp add: domains_writable_def dump_keeps_def doc_full_def site_a_def site_b_def)
  have h4: "configPath ?s = Some ''forever.yml''" by (simp add: config_of_def)
  have h5: "''forever.yml'' \<noteq> []" by simp
  have h6: "safeLoad0 (dump0 (canonical ?s)) = Inr (Some (skip_invalid (canonical ?s)))"
    unfolding c by (simp add: safeLoad0_def dump0_def)
  show ?thesis
    using h1 h2 h3 h4 h6 config_round_trip [where safeLoad = safeLoad0 and safeDump = dump0
        and P = "platform0 (Some ''test'')", OF h1 h2 h3 h4 h5 h6]
    unfolding c derive_doc_full
    by blast
qed

end
